theory Spec2Isabelle
  imports Complex_Main "HOL-Library.Word"
begin

section \<open>JavaScript values used by nullmodel\<close>

text \<open>
  A JavaScript string is a sequence of UTF-16 code units; \<open>length\<close> counts code units and a
  regular expression without the \<open>u\<close> flag matches code units.  \<open>js\<close> embeds an ASCII literal
  of the source.  JavaScript numbers are IEEE doubles; the model idealises them as reals
  (configuration values, \<open>Math.random()\<close>) and integers (counts, milliseconds).
\<close>

type_synonym js_char = "16 word"
type_synonym js_string = "js_char list"

definition js :: "string \<Rightarrow> js_string" where
  "js s = map (\<lambda>c. word_of_nat (of_char c)) s"

text \<open>JSON documents: the object literals the handlers build and serialise.\<close>

datatype json =
    JNull
  | JBool bool
  | JNum int
  | JStr js_string
  | JArr "json list"
  | JObj "(string \<times> json) list"

text \<open>
  What a handler does to the response object \<open>res\<close>, in order.  A frame is one call of
  \<open>res.write\<close>; the JSON document it serialises is kept as a value.
\<close>

datatype frame =
    Data json \<comment> \<open>\<open>res.write(`data: ${JSON.stringify(chunk)}\n\n`)\<close>\<close>
  | Raw js_string \<comment> \<open>\<open>res.write\<close> of a literal string\<close>
  | SSE js_string json \<comment> \<open>\<open>res.write(`event: ${event}\ndata: ${JSON.stringify(data)}\n\n`)\<close>\<close>

datatype event =
    WriteHead int "(js_string \<times> js_string) list" \<comment> \<open>\<open>res.writeHead(status, headers)\<close>\<close>
  | Write frame
  | Sleep int \<comment> \<open>\<open>await sleep(ms)\<close>\<close>
  | End "json option" \<comment> \<open>\<open>res.end(JSON.stringify(doc))\<close> or \<open>res.end()\<close>\<close>

text \<open>
  The JavaScript runtime and the peer, as far as a request handler observes them:
  the values \<open>Math.random()\<close> returns in call order, the clock, \<open>JSON.stringify\<close>, the
  properties of the built-in members of \<open>Object.prototype\<close>, and the moment the client
  closes the connection.  The handler is one task of the event loop, so \<open>res.destroyed\<close>
  can only change while it is suspended in \<open>await sleep\<close>: \<open>closed_at = Some k\<close> says
  the connection is gone once \<open>k + 1\<close> sleeps have completed.
\<close>

datatype builtin_read = Throws | Falsy | Truthy

record env =
  random_values :: "nat \<Rightarrow> real"
  Date_now :: int
  JSON_stringify :: "json \<Rightarrow> js_string"
  builtin_property :: "js_string \<Rightarrow> js_string \<Rightarrow> builtin_read"
  closed_at :: "nat option"

record world =
  drawn :: nat \<comment> \<open>calls of \<open>Math.random()\<close> so far\<close>
  slept :: nat \<comment> \<open>completed \<open>await sleep\<close> so far\<close>
  out :: "event list" \<comment> \<open>effects on \<open>res\<close>, oldest first\<close>

definition Math_random :: "env \<Rightarrow> world \<Rightarrow> real \<times> world" where
  "Math_random e w = (random_values e (drawn w), w\<lparr>drawn := Suc (drawn w)\<rparr>)"

definition emit :: "event \<Rightarrow> world \<Rightarrow> world" where
  "emit ev w = w\<lparr>out := out w @ [ev]\<rparr>"

definition sleep :: "int \<Rightarrow> world \<Rightarrow> world" where
  "sleep ms w = w\<lparr>slept := Suc (slept w), out := out w @ [Sleep ms]\<rparr>"

definition destroyed :: "env \<Rightarrow> world \<Rightarrow> bool" where
  "destroyed e w = (case closed_at e of None \<Rightarrow> False | Some k \<Rightarrow> k < slept w)"

section \<open>Configuration (src/config.js)\<close>

record latency_config =
  firstToken :: real
  perToken :: real
  variance :: real

record defaults_config =
  persona :: js_string
  maxTokens :: int

record chaos_config =
  enabled :: bool
  errorRate :: real
  slowdownRate :: real
  slowdownMultiplier :: real
  rateLimitRate :: real

record config =
  port :: int
  latency :: latency_config
  defaults :: defaults_config
  chaos :: chaos_config
  cors :: bool
  verbose :: bool

definition DEFAULTS :: config where
  "DEFAULTS = \<lparr>
     port = 4000,
     latency = \<lparr>firstToken = 300, perToken = 30, variance = 3 / 10\<rparr>,
     defaults = \<lparr>persona = js ''balanced'', maxTokens = 512\<rparr>,
     chaos = \<lparr>enabled = False, errorRate = 5 / 100, slowdownRate = 1 / 10,
       slowdownMultiplier = 5, rateLimitRate = 2 / 100\<rparr>,
     cors = True,
     verbose = False\<rparr>"

section \<open>Token segmenter and latency model (src/utils/streaming.js)\<close>

text \<open>
  The classes of the regular expression \<open>/(\s+|[^\s\w]|\w+)/g\<close>: \<open>\s\<close> is ECMAScript's
  WhiteSpace and LineTerminator, \<open>\w\<close> is \<open>[A-Za-z0-9_]\<close>.
\<close>

definition is_space :: "js_char \<Rightarrow> bool" where
  "is_space c \<longleftrightarrow>
     c = 0x09 \<or> c = 0x0A \<or> c = 0x0B \<or> c = 0x0C \<or> c = 0x0D \<or> c = 0x20 \<or> c = 0xA0 \<or>
     c = 0x1680 \<or> (0x2000 \<le> c \<and> c \<le> 0x200A) \<or> c = 0x2028 \<or> c = 0x2029 \<or>
     c = 0x202F \<or> c = 0x205F \<or> c = 0x3000 \<or> c = 0xFEFF"

definition is_word :: "js_char \<Rightarrow> bool" where
  "is_word c \<longleftrightarrow>
     (0x30 \<le> c \<and> c \<le> 0x39) \<or> (0x41 \<le> c \<and> c \<le> 0x5A) \<or> c = 0x5F \<or>
     (0x61 \<le> c \<and> c \<le> 0x7A)"

text \<open>
  \<open>tokenize\<close>: the loop \<open>while ((match = regex.exec(text)) !== null) tokens.push(match[0])\<close>.
  At the current index \<open>exec\<close> tries the three alternatives in order, each greedy; where
  none matches it moves on to the next index.
\<close>

function tokenize :: "js_string \<Rightarrow> js_string list" where
  "tokenize [] = []"
| "tokenize (c # cs) =
     (if is_space c then (c # takeWhile is_space cs) # tokenize (dropWhile is_space cs)
      else if \<not> is_space c \<and> \<not> is_word c then [c] # tokenize cs
      else if is_word c then (c # takeWhile is_word cs) # tokenize (dropWhile is_word cs)
      else tokenize cs)"
  by pat_completeness auto
termination
  by (relation "measure length") (auto simp: le_imp_less_Suc length_dropWhile_le)

text \<open>\<open>estimateTokens\<close>: \<open>Math.ceil(text.length / 4)\<close>.\<close>

definition estimateTokens :: "js_string \<Rightarrow> int" where
  "estimateTokens text = \<lceil>real (length text) / 4\<rceil>"

text \<open>\<open>Math.round\<close> rounds to the nearest integer, ties towards plus infinity.\<close>

definition Math_round :: "real \<Rightarrow> int" where
  "Math_round x = \<lfloor>x + 1 / 2\<rfloor>"

text \<open>
  \<open>getTokenDelay\<close> and \<open>getFirstTokenDelay\<close>:
  \<open>jitter = 1 + (Math.random() * 2 - 1) * variance\<close>, then
  \<open>Math.max(floor, Math.round(base * jitter))\<close>.
\<close>

definition getTokenDelay :: "env \<Rightarrow> config \<Rightarrow> world \<Rightarrow> int \<times> world" where
  "getTokenDelay e cfg w =
     (let base = perToken (latency cfg);
          v = variance (latency cfg);
          (r, w') = Math_random e w;
          jitter = 1 + (r * 2 - 1) * v
      in (max 5 (Math_round (base * jitter)), w'))"

definition getFirstTokenDelay :: "env \<Rightarrow> config \<Rightarrow> world \<Rightarrow> int \<times> world" where
  "getFirstTokenDelay e cfg w =
     (let base = firstToken (latency cfg);
          v = variance (latency cfg);
          (r, w') = Math_random e w;
          jitter = 1 + (r * 2 - 1) * v
      in (max 50 (Math_round (base * jitter)), w'))"

text \<open>
  \<open>generateId\<close>: 24 times \<open>id += chars[Math.floor(Math.random() * chars.length)]\<close>;
  an index outside the 62 characters reads \<open>undefined\<close>, which \<open>+=\<close> appends as text.
\<close>

definition id_chars :: js_string where
  "id_chars = js ''abcdefghijklmnopqrstuvwxyzABCDEFGHIJKLMNOPQRSTUVWXYZ0123456789''"

fun generateId_loop :: "env \<Rightarrow> nat \<Rightarrow> world \<Rightarrow> js_string \<times> world" where
  "generateId_loop e 0 w = ([], w)"
| "generateId_loop e (Suc n) w =
     (let (r, w1) = Math_random e w;
          i = \<lfloor>r * real (length id_chars)\<rfloor>;
          ch = (if 0 \<le> i \<and> i < int (length id_chars) then [id_chars ! nat i]
                else js ''undefined'');
          (rest, w2) = generateId_loop e n w1
      in (ch @ rest, w2))"

definition generateId :: "env \<Rightarrow> js_string \<Rightarrow> world \<Rightarrow> js_string \<times> world" where
  "generateId e prefix w =
     (let (ident, w') = generateId_loop e 24 w in (prefix @ js ''-'' @ ident, w'))"

section \<open>Fault injection (src/utils/chaos.js)\<close>

text \<open>\<open>shouldTriggerChaos\<close> returns one of three strings or \<open>null\<close> (\<open>None\<close>).\<close>

definition shouldTriggerChaos :: "env \<Rightarrow> config \<Rightarrow> world \<Rightarrow> js_string option \<times> world" where
  "shouldTriggerChaos e cfg w =
     (if \<not> enabled (chaos cfg) then (None, w)
      else
        let (roll, w') = Math_random e w in
        if roll < rateLimitRate (chaos cfg) then (Some (js ''rate_limit''), w')
        else if roll < rateLimitRate (chaos cfg) + errorRate (chaos cfg)
          then (Some (js ''server_error''), w')
        else if roll < rateLimitRate (chaos cfg) + errorRate (chaos cfg) + slowdownRate (chaos cfg)
          then (Some (js ''slowdown''), w')
        else (None, w'))"

section \<open>Property reads on object literals\<close>

text \<open>
  \<open>personas\<close> and \<open>errors\<close> are object literals, so \<open>obj[key]\<close> with a computed key finds
  the object's own properties and, failing that, the members every object inherits from
  \<open>Object.prototype\<close>.  Those members are built-in functions, except \<open>__proto__\<close>, which
  reads as \<open>Object.prototype\<close> itself; all twelve are truthy.
\<close>

definition object_prototype_names :: "js_string list" where
  "object_prototype_names = map js
     [''constructor'', ''__defineGetter__'', ''__defineSetter__'', ''hasOwnProperty'',
      ''__lookupGetter__'', ''__lookupSetter__'', ''isPrototypeOf'', ''propertyIsEnumerable'',
      ''toString'', ''valueOf'', ''__proto__'', ''toLocaleString'']"

datatype 'a property = Own 'a | Inherited js_string | Missing

definition get_property :: "(js_string \<times> 'a) list \<Rightarrow> js_string \<Rightarrow> 'a property" where
  "get_property obj key =
     (case map_of obj key of
        Some v \<Rightarrow> Own v
      | None \<Rightarrow> if key \<in> set object_prototype_names then Inherited key else Missing)"

datatype error = TypeError

section \<open>Persona catalog (src/personas/index.js)\<close>

record toolcall =
  tc_name :: js_string \<comment> \<open>\<open>name\<close>\<close>
  tc_arguments :: json \<comment> \<open>\<open>arguments\<close>\<close>

record persona =
  name :: js_string
  description :: js_string
  responses :: "js_string list"
  toolCalls :: "toolcall list option" \<comment> \<open>\<open>None\<close>: the persona has no \<open>toolCalls\<close> property\<close>

definition persona_balanced :: persona where
  \<open>persona_balanced = \<lparr>
     name = js ''balanced'',
     description =
       js ''Medium-length, natural responses with mixed formatting'',
     responses = [
       (js ''That's a great question. Let me break it down.\<newline>\<newline>The core i'' @
          js ''dea is relatively simple: you're building a pipeline that transforms raw inp'' @
          js ''ut into structured output. The tricky part is handling edge cases '' @
          [0x2014] @
          js '' malformed data, timeouts, and partial failures.\<newline>\<newline>I'd reco'' @
          js ''mmend starting with the happy path, getting that solid, then layering in err'' @
          js ''or handling incrementally. Don't try to boil the ocean on v1.''),
       (js ''Here's what I'd suggest:\<newline>\<newline>First, separate your concerns. T'' @
          js ''he data fetching layer shouldn't know anything about how the UI renders. Sec'' @
          js ''ond, make your state transitions explicit '' @
          [0x2014] @
          js '' don't let things happen implicitly.\<newline>\<newline>The biggest mistake '' @
          js ''I see is coupling the loading state to the data state. Keep them independent'' @
          js '', and your UI will be much more predictable.''),
       (js ''There are a few ways to approach this, each with tradeoffs.\<newline>\<newline>'' @
          js ''The simplest approach is a direct API call on each interaction. Low complexi'' @
          js ''ty, but you'll hit latency issues at scale. The more robust approach is to b'' @
          js ''atch requests and process them async, but that adds complexity to your state'' @
          js '' management.\<newline>\<newline>For most cases, I'd start simple and optimiz'' @
          js ''e later. Premature optimization is still the root of all evil.'')],
     toolCalls = None\<rparr>\<close>

definition persona_verbose :: persona where
  \<open>persona_verbose = \<lparr>
     name = js ''verbose'',
     description =
       (js ''Long, detailed responses '' @
         [0x2014] @
         js '' tests scroll, rendering perf, and overflow''),
     responses = [
       (js ''This is a really important topic, and I want to make sure I give you a compr'' @
          js ''ehensive answer.\<newline>\<newline>## Background\<newline>\<newline>To unde'' @
          js ''rstand the current state of things, we need to go back to the fundamentals. '' @
          js ''The architecture you're describing evolved from earlier patterns in distribu'' @
          js ''ted systems, specifically the idea of message-passing between loosely couple'' @
          js ''d services.\<newline>\<newline>The key insight was that by decoupling produc'' @
          js ''ers from consumers, you gain flexibility in how you scale, deploy, and recov'' @
          js ''er from failures. This isn't a new idea '' @
          [0x2014] @
          js '' it dates back to the early days of Unix pipes '' @
          [0x2014] @
          js '' but the modern implementation looks quite different.\<newline>\<newline>## '' @
          js ''The Current Landscape\<newline>\<newline>Today, you have several options:\<newline>'' @
          js ''\<newline>1. **Event-driven architecture** '' @
          [0x2014] @
          js '' Services emit events, other services react. Great for loose coupling, but d'' @
          js ''ebugging can be painful because the flow isn't linear.\<newline>\<newline>2.'' @
          js '' **Request-response with queues** '' @
          [0x2014] @
          js '' More traditional, easier to reason about, but you lose some of the flexibil'' @
          js ''ity of pure event-driven systems.\<newline>\<newline>3. **Hybrid approaches*'' @
          js ''* '' @
          [0x2014] @
          js '' Most production systems end up here. Synchronous for the critical path, asy'' @
          js ''nc for everything else.\<newline>\<newline>## My Recommendation\<newline>\<newline>'' @
          js ''Given what you've described, I'd lean toward option 3. Here's why:\<newline>'' @
          js ''\<newline>- Your latency requirements on the critical path suggest you need '' @
          js ''synchronous responses\<newline>- But your analytics and logging pipeline is '' @
          js ''a perfect candidate for async processing\<newline>- The hybrid approach lets'' @
          js '' you optimize each path independently\<newline>\<newline>The implementation '' @
          js ''would look something like this: your API gateway handles the synchronous req'' @
          js ''uest-response cycle, and after returning the response to the client, it drop'' @
          js ''s a message onto a queue for downstream processing. This gives you the best '' @
          js ''of both worlds '' @
          [0x2014] @
          js '' low latency for the user, and decoupled processing for everything else.\<newline>'' @
          js ''\<newline>## Common Pitfalls\<newline>\<newline>A few things to watch out fo'' @
          js ''r:\<newline>\<newline>- **Don't forget about backpressure.** If your async c'' @
          js ''onsumers can't keep up, your queues will grow unbounded. Set up dead-letter '' @
          js ''queues and alerting from day one.\<newline>- **Idempotency is non-negotiable'' @
          js ''.** Messages will be delivered more than once. Design your consumers to hand'' @
          js ''le that gracefully.\<newline>- **Observability first.** In a distributed sys'' @
          js ''tem, the ability to trace a request across services is critical. Invest in t'' @
          js ''his early.\<newline>\<newline>I know this is a lot, but these fundamentals w'' @
          js ''ill save you significant pain down the line. Happy to dive deeper into any s'' @
          js ''pecific area.'')],
     toolCalls = None\<rparr>\<close>

definition persona_terse :: persona where
  \<open>persona_terse = \<lparr>
     name = js ''terse'',
     description =
       (js ''Very short responses '' @
         [0x2014] @
         js '' tests compact UI states''),
     responses = [
       js ''Yes, that's correct.'',
       js ''No. Use a `Map` instead.'',
       js ''42.'',
       js ''Try `JSON.parse()` with a try-catch wrapper.'',
       js ''That's a bug, not a feature.'',
       js ''Correct.''],
     toolCalls = None\<rparr>\<close>

definition persona_code :: persona where
  \<open>persona_code = \<lparr>
     name = js ''code'',
     description =
       (js ''Code-heavy responses '' @
         [0x2014] @
         js '' tests syntax highlighting, code blocks''),
     responses = [
       (js ''Here's a clean implementation:\<newline>\<newline>```typescript\<newline>int'' @
          js ''erface StreamOptions {\<newline>  onToken: (token: string) => void;\<newline>'' @
          js ''  onComplete: () => void;\<newline>  onError: (error: Error) => void;\<newline>'' @
          js ''  signal?: AbortSignal;\<newline>}\<newline>\<newline>async function streamC'' @
          js ''ompletion(\<newline>  prompt: string,\<newline>  options: StreamOptions\<newline>'' @
          js ''): Promise<void> {\<newline>  const { onToken, onComplete, onError, signal }'' @
          js '' = options;\<newline>\<newline>  try {\<newline>    const response = await f'' @
          js ''etch('/api/chat', {\<newline>      method: 'POST',\<newline>      headers: {'' @
          js '' 'Content-Type': 'application/json' },\<newline>      body: JSON.stringify({'' @
          js '' prompt }),\<newline>      signal,\<newline>    });\<newline>\<newline>    i'' @
          js ''f (!response.ok) {\<newline>      throw new Error(`HTTP ${response.status}`)'' @
          js '';\<newline>    }\<newline>\<newline>    const reader = response.body?.getRea'' @
          js ''der();\<newline>    if (!reader) throw new Error('No reader available');\<newline>'' @
          js ''\<newline>    const decoder = new TextDecoder();\<newline>\<newline>    whil'' @
          js ''e (true) {\<newline>      const { done, value } = await reader.read();\<newline>'' @
          js ''      if (done) break;\<newline>\<newline>      const chunk = decoder.decode'' @
          js ''(value, { stream: true });\<newline>      const lines = chunk.split('' @
          [0x0027, 0x005C] @
          js ''n').filter(Boolean);\<newline>\<newline>      for (const line of lines) {\<newline>'' @
          js ''        if (line.startsWith('data: ')) {\<newline>          const data = lin'' @
          js ''e.slice(6);\<newline>          if (data === '[DONE]') {\<newline>           '' @
          js '' onComplete();\<newline>            return;\<newline>          }\<newline>  '' @
          js ''        const parsed = JSON.parse(data);\<newline>          const token = pa'' @
          js ''rsed.choices?.[0]?.delta?.content ?? '' @
          [0x0027, 0x0027] @
          js '';\<newline>          if (token) onToken(token);\<newline>        }\<newline>'' @
          js ''      }\<newline>    }\<newline>\<newline>    onComplete();\<newline>  } cat'' @
          js ''ch (err) {\<newline>    if (err instanceof Error) onError(err);\<newline>  }'' @
          js ''\<newline>}\<newline>```\<newline>\<newline>Key things: the `AbortSignal` su'' @
          js ''pport lets you wire up a stop button, and the chunked line parsing handles t'' @
          js ''he SSE format correctly even when chunks split across lines.''),
       (js ''Quick solution:\<newline>\<newline>```javascript\<newline>const retry = asyn'' @
          js ''c (fn, retries = 3, delay = 1000) => {\<newline>  for (let i = 0; i < retrie'' @
          js ''s; i++) {\<newline>    try {\<newline>      return await fn();\<newline>    '' @
          js ''} catch (err) {\<newline>      if (i === retries - 1) throw err;\<newline>  '' @
          js ''    await new Promise(r => setTimeout(r, delay * Math.pow(2, i)));\<newline>'' @
          js ''    }\<newline>  }\<newline>};\<newline>\<newline>// Usage\<newline>const re'' @
          js ''sult = await retry(() => callLLM(prompt), 3, 500);\<newline>```\<newline>\<newline>'' @
          js ''Exponential backoff built in. Adjust `retries` and base `delay` to taste.'')],
     toolCalls = None\<rparr>\<close>

definition persona_markdown :: persona where
  \<open>persona_markdown = \<lparr>
     name = js ''markdown'',
     description =
       (js ''Rich markdown with tables, lists, emphasis '' @
         [0x2014] @
         js '' tests full markdown rendering''),
     responses = [
       (js ''# Comparison: Streaming Approaches\<newline>\<newline>Here's how the main ap'' @
          js ''proaches stack up:\<newline>\<newline>| Approach | Latency | Complexity | Br'' @
          js ''owser Support |\<newline>|----------|---------|------------|----------------'' @
          js ''|\<newline>| **SSE** | Low | Low | '' @
          [0x2705] @
          js '' All modern |\<newline>| **WebSocket** | Very Low | Medium | '' @
          [0x2705] @
          js '' All modern |\<newline>| **Long Polling** | Medium | Low | '' @
          [0x2705] @
          js '' Universal |\<newline>| **WebTransport** | Very Low | High | '' @
          [0x26A0, 0xFE0F] @
          js '' Limited |\<newline>\<newline>## Key Takeaways\<newline>\<newline>- **For mo'' @
          js ''st AI apps, SSE is the right choice.** It's simple, well-supported, and desi'' @
          js ''gned for exactly this use case (server '' @
          [0x2192] @
          js '' client streaming).\<newline>- **WebSockets** make sense if you need bidirec'' @
          js ''tional streaming (e.g., real-time collaboration on prompts).\<newline>- **Lo'' @
          js ''ng polling** is your fallback for hostile network environments.\<newline>\<newline>'' @
          js ''> **Pro tip:** Always implement a reconnection strategy. SSE has `EventSourc'' @
          js ''e` built-in retry, but if you're using `fetch` with a `ReadableStream`, you'l'' @
          js ''l need to handle reconnection yourself.\<newline>\<newline>### The decision '' @
          js ''tree\<newline>\<newline>1. Do you need server '' @
          [0x2192] @
          js '' client only? '' @
          [0x2192] @
          js '' **SSE**\<newline>2. Do you need bidirectional? '' @
          [0x2192] @
          js '' **WebSocket**\<newline>3. Are you behind a corporate proxy that kills conne'' @
          js ''ctions? '' @
          [0x2192] @
          js '' **Long Polling**\<newline>4. Do you need multiplexed streams? '' @
          [0x2192] @
          js '' **WebTransport** *(but check browser support)*\<newline>\<newline>---\<newline>'' @
          js ''\<newline>*Note: All approaches benefit from `gzip` or `brotli` compression '' @
          js ''on the wire. Don't skip this '' @
          [0x2014] @
          js '' it makes a bigger difference than you'd expect on token-heavy payloads.*'')],
     toolCalls = None\<rparr>\<close>

definition persona_tool_calls :: persona where
  \<open>persona_tool_calls = \<lparr>
     name = js ''tool_calls'',
     description =
       (js ''Responses with tool/function calls '' @
         [0x2014] @
         js '' tests tool call UI rendering''),
     responses = [
       js ''I'll look up the current weather for you.'',
       js ''Let me search the database for that information.'',
       js ''I'll create that document for you now.''],
     toolCalls = Some [
       \<lparr>tc_name = js ''get_weather'',
        tc_arguments = JObj [
          (''location'', JStr (js ''San Francisco, CA'')),
          (''unit'', JStr (js ''celsius''))]\<rparr>,
       \<lparr>tc_name = js ''search_database'',
        tc_arguments = JObj [
          (''query'', JStr (js ''recent orders'')),
          (''limit'', JNum 10),
          (''status'', JStr (js ''pending''))]\<rparr>,
       \<lparr>tc_name = js ''create_document'',
        tc_arguments = JObj [
          (''title'', JStr (js ''Q4 Planning Notes'')),
          (''content'', JStr (js ''Initial draft for Q4 planning...'')),
          (''tags'', JArr [JStr (js ''planning''), JStr (js ''q4''), JStr (js ''2025'')])]\<rparr>]\<rparr>\<close>

definition persona_error_prone :: persona where
  \<open>persona_error_prone = \<lparr>
     name = js ''error_prone'',
     description =
       (js ''Simulates various error states '' @
         [0x2014] @
         js '' tests error UI handling''),
     responses = [
       js ''__ERROR__:rate_limit'',
       js ''__ERROR__:context_length'',
       js ''__ERROR__:server_error'',
       js ''__ERROR__:timeout'',
       js ''This response works fine though.''],
     toolCalls = None\<rparr>\<close>

definition personas :: "(js_string \<times> persona) list" where
  "personas =
     [(js ''balanced'', persona_balanced),
      (js ''verbose'', persona_verbose),
      (js ''terse'', persona_terse),
      (js ''code'', persona_code),
      (js ''markdown'', persona_markdown),
      (js ''tool_calls'', persona_tool_calls),
      (js ''error_prone'', persona_error_prone)]"

text \<open>
  \<open>getPersona\<close>: \<open>personas[name] || personas.balanced\<close>.  The result is a persona of the
  catalog or, for a name that \<open>Object.prototype\<close> defines, that built-in member.
\<close>

datatype persona_value = Persona persona | Builtin js_string

definition getPersona :: "js_string \<Rightarrow> persona_value" where
  "getPersona nm =
     (case get_property personas nm of
        Own p \<Rightarrow> Persona p
      | Inherited k \<Rightarrow> Builtin k
      | Missing \<Rightarrow> Persona persona_balanced)"

text \<open>\<open>xs[i]\<close> for an integer index: \<open>undefined\<close> (\<open>None\<close>) outside the array.\<close>

definition at_index :: "'a list \<Rightarrow> int \<Rightarrow> 'a option" where
  "at_index xs i = (if 0 \<le> i \<and> i < int (length xs) then Some (xs ! nat i) else None)"

text \<open>
  \<open>getResponse\<close> and \<open>getToolCall\<close>.  The handlers call them with the object that
  \<open>getPersona\<close> returned, so the branch \<open>typeof persona === 'string'\<close> is not taken.  A
  built-in member has no \<open>responses\<close> property, so \<open>p.responses.length\<close> throws a
  TypeError.  A chosen text may be \<open>undefined\<close> (\<open>None\<close>) when the index is outside the
  array.
\<close>

fun getResponse :: "env \<Rightarrow> persona_value \<Rightarrow> world \<Rightarrow> error + (js_string option \<times> world)" where
  "getResponse e (Persona p) w =
     (let (r, w') = Math_random e w;
          idx = \<lfloor>r * real (length (responses p))\<rfloor>
      in Inr (at_index (responses p) idx, w'))"
| "getResponse e (Builtin k) w = Inl TypeError"

text \<open>
  \<open>getToolCall\<close> returns \<open>null\<close> (\<open>None\<close>) for a persona without \<open>toolCalls\<close>, else the
  pair \<open>{toolCall, response}\<close> with \<open>response: p.responses[idx] || p.responses[0]\<close>.
\<close>

definition getToolCall ::
  "env \<Rightarrow> persona \<Rightarrow> world \<Rightarrow> ((toolcall option \<times> js_string option) \<times> world) option" where
  "getToolCall e p w =
     (case toolCalls p of
        None \<Rightarrow> None
      | Some tcs \<Rightarrow>
          let (r, w') = Math_random e w;
              idx = \<lfloor>r * real (length tcs)\<rfloor>;
              response = (case at_index (responses p) idx of
                            Some t \<Rightarrow> if t \<noteq> [] then Some t else at_index (responses p) 0
                          | None \<Rightarrow> at_index (responses p) 0)
          in Some ((at_index tcs idx, response), w'))"

section \<open>Fault payloads (src/utils/chaos.js)\<close>

record payload =
  p_status :: int \<comment> \<open>\<open>status\<close>\<close>
  p_body :: json \<comment> \<open>\<open>body\<close>\<close>
  p_headers :: "(js_string \<times> js_string) list option" \<comment> \<open>\<open>headers\<close>; \<open>None\<close>: no such property\<close>

definition rate_limit_errors :: "(js_string \<times> payload) list" where
  \<open>rate_limit_errors =
     [(js ''openai'', \<lparr>
         p_status = 429,
         p_body = JObj [(''error'', JObj [
           (''message'', JStr (js ''Rate limit reached for gpt-4 in organization org-mock on tokens per '' @
              js ''min (TPM): Limit 40000, Used 39532, Requested 1024.'')),
           (''type'', JStr (js ''tokens'')),
           (''param'', JNull),
           (''code'', JStr (js ''rate_limit_exceeded''))])],
         p_headers = Some [(js ''retry-after'', js ''2''), (js ''x-ratelimit-remaining-tokens'', js ''468'')]\<rparr>),
      (js ''anthropic'', \<lparr>
         p_status = 429,
         p_body = JObj [
           (''type'', JStr (js ''error'')),
           (''error'', JObj [
             (''type'', JStr (js ''rate_limit_error'')),
             (''message'', JStr (js ''Number of request tokens has exceeded your per-minute rate limit.''))])],
         p_headers = Some [(js ''retry-after'', js ''2'')]\<rparr>),
      (js ''gemini'', \<lparr>
         p_status = 429,
         p_body = JObj [(''error'', JObj [
           (''code'', JNum 429),
           (''message'', JStr (js ''Resource has been exhausted (e.g. check quota).'')),
           (''status'', JStr (js ''RESOURCE_EXHAUSTED''))])],
         p_headers = Some [(js ''retry-after'', js ''2'')]\<rparr>)]\<close>

definition server_error_openai :: payload where
  \<open>server_error_openai = \<lparr>
     p_status = 500,
     p_body = JObj [(''error'', JObj [
       (''message'', JStr (js ''The server had an error while processing your request. Sorry about that!'')),
       (''type'', JStr (js ''server_error'')),
       (''param'', JNull),
       (''code'', JNull)])],
     p_headers = None\<rparr>\<close>

definition server_error_errors :: "(js_string \<times> payload) list" where
  \<open>server_error_errors =
     [(js ''openai'', server_error_openai),
      (js ''anthropic'', \<lparr>
         p_status = 500,
         p_body = JObj [
           (''type'', JStr (js ''error'')),
           (''error'', JObj [
             (''type'', JStr (js ''api_error'')),
             (''message'', JStr (js ''An unexpected error has occurred internal to Anthropic's systems.''))])],
         p_headers = None\<rparr>),
      (js ''gemini'', \<lparr>
         p_status = 500,
         p_body = JObj [(''error'', JObj [
           (''code'', JNum 500),
           (''message'', JStr (js ''An internal error has occurred. Please retry or report in '' @
              js ''https://developers.generativeai.google/guide/troubleshooting'')),
           (''status'', JStr (js ''INTERNAL''))])],
         p_headers = None\<rparr>)]\<close>

definition context_length_errors :: "(js_string \<times> payload) list" where
  \<open>context_length_errors =
     [(js ''openai'', \<lparr>
         p_status = 400,
         p_body = JObj [(''error'', JObj [
           (''message'', JStr (js ''This model's maximum context length is 128000 tokens. However, your '' @
              js ''messages resulted in 129847 tokens. Please reduce the length of the messages.'')),
           (''type'', JStr (js ''invalid_request_error'')),
           (''param'', JStr (js ''messages'')),
           (''code'', JStr (js ''context_length_exceeded''))])],
         p_headers = None\<rparr>),
      (js ''anthropic'', \<lparr>
         p_status = 400,
         p_body = JObj [
           (''type'', JStr (js ''error'')),
           (''error'', JObj [
             (''type'', JStr (js ''invalid_request_error'')),
             (''message'', JStr (js ''prompt is too long: 129847 tokens > 200000 maximum''))])],
         p_headers = None\<rparr>),
      (js ''gemini'', \<lparr>
         p_status = 400,
         p_body = JObj [(''error'', JObj [
           (''code'', JNum 400),
           (''message'', JStr (js ''Request payload size exceeds the limit: 2097152 bytes.'')),
           (''status'', JStr (js ''INVALID_ARGUMENT''))])],
         p_headers = None\<rparr>)]\<close>

definition timeout_errors :: "(js_string \<times> payload) list" where
  \<open>timeout_errors =
     [(js ''openai'', \<lparr>
         p_status = 408,
         p_body = JObj [(''error'', JObj [
           (''message'', JStr (js ''Request timed out.'')),
           (''type'', JStr (js ''timeout_error'')),
           (''param'', JNull),
           (''code'', JStr (js ''timeout''))])],
         p_headers = None\<rparr>),
      (js ''anthropic'', \<lparr>
         p_status = 408,
         p_body = JObj [
           (''type'', JStr (js ''error'')),
           (''error'', JObj [
             (''type'', JStr (js ''timeout_error'')),
             (''message'', JStr (js ''Request timed out.''))])],
         p_headers = None\<rparr>),
      (js ''gemini'', \<lparr>
         p_status = 504,
         p_body = JObj [(''error'', JObj [
           (''code'', JNum 504),
           (''message'', JStr (js ''Deadline exceeded.'')),
           (''status'', JStr (js ''DEADLINE_EXCEEDED''))])],
         p_headers = None\<rparr>)]\<close>

definition errors :: "(js_string \<times> (js_string \<times> payload) list) list" where
  "errors =
     [(js ''rate_limit'', rate_limit_errors),
      (js ''server_error'', server_error_errors),
      (js ''context_length'', context_length_errors),
      (js ''timeout'', timeout_errors)]"

text \<open>
  \<open>getChaosResponse\<close>:
  \<open>errors[type]?.[provider] || errors.server_error[provider] || errors.server_error.openai\<close>.
  When \<open>type\<close> names a member of \<open>Object.prototype\<close>, \<open>errors[type]\<close> is that built-in
  and \<open>?.[provider]\<close> reads one of its properties, which the runtime defines
  (\<open>builtin_property\<close>: the read throws, or gives a falsy or a truthy value).  A result
  that is no payload is the built-in value found under the given property path.  The
  server passes both arguments, so the default \<open>provider = 'openai'\<close> is not used.
\<close>

datatype fault_value = Payload payload | HostValue "js_string list"

definition getChaosResponse :: "env \<Rightarrow> js_string \<Rightarrow> js_string \<Rightarrow> error + fault_value" where
  "getChaosResponse e kind provider =
     (let fallback =
            (case get_property server_error_errors provider of
               Own p \<Rightarrow> Payload p
             | Inherited k \<Rightarrow> HostValue [k]
             | Missing \<Rightarrow> Payload server_error_openai)
      in case get_property errors kind of
           Own table \<Rightarrow>
             (case get_property table provider of
                Own p \<Rightarrow> Inr (Payload p)
              | Inherited k \<Rightarrow> Inr (HostValue [k])
              | Missing \<Rightarrow> Inr fallback)
         | Inherited k \<Rightarrow>
             (case builtin_property e k provider of
                Throws \<Rightarrow> Inl TypeError
              | Falsy \<Rightarrow> Inr fallback
              | Truthy \<Rightarrow> Inr (HostValue [k, provider]))
         | Missing \<Rightarrow> Inr fallback)"

section \<open>Requests and the shared handler steps\<close>

text \<open>
  The parsed JSON body of a request, as far as the handlers read it: \<open>model\<close>, \<open>stream\<close>,
  \<open>_persona\<close>, the length of \<open>tools\<close>, \<open>messages\<close> and \<open>contents\<close>; \<open>None\<close> is an
  absent property.
\<close>

record request_body =
  b_model :: "js_string option"
  b_stream :: "bool option"
  b_persona :: "js_string option"
  b_tools :: "nat option"
  b_messages :: "json option"
  b_contents :: "json option"

text \<open>JavaScript truthiness of a JSON value, and \<open>x || d\<close> on optional properties.\<close>

fun truthy :: "json \<Rightarrow> bool" where
  "truthy JNull = False"
| "truthy (JBool b) = b"
| "truthy (JNum n) = (n \<noteq> 0)"
| "truthy (JStr s) = (s \<noteq> [])"
| "truthy (JArr xs) = True"
| "truthy (JObj kvs) = True"

definition string_or :: "js_string option \<Rightarrow> js_string \<Rightarrow> js_string" where
  "string_or x d = (case x of Some s \<Rightarrow> if s \<noteq> [] then s else d | None \<Rightarrow> d)"

definition json_or :: "json option \<Rightarrow> json \<Rightarrow> json" where
  "json_or x d = (case x of Some j \<Rightarrow> if truthy j then j else d | None \<Rightarrow> d)"

text \<open>\<open>resolvePersona\<close> (the same function in all three providers).\<close>

definition resolvePersona :: "request_body \<Rightarrow> config \<Rightarrow> persona_value" where
  "resolvePersona body cfg =
     (let hint = string_or (b_persona body) (persona (defaults cfg)) in getPersona hint)"

text \<open>
  The content selection that opens every handler:
  \<open>isToolCall = persona.name === 'tool_calls' || body.tools?.length > 0\<close>, then
  \<open>getToolCall\<close> if \<open>isToolCall && persona.toolCalls\<close>, else \<open>getResponse\<close>.  A built-in
  member of \<open>Object.prototype\<close> has no \<open>toolCalls\<close> and a \<open>name\<close> other than \<open>tool_calls\<close>.
  The result is the pair of \<open>content\<close> and \<open>toolCall\<close>, either of which may be \<open>undefined\<close>.
\<close>

definition selectContent ::
  "env \<Rightarrow> persona_value \<Rightarrow> request_body \<Rightarrow> world \<Rightarrow>
     error + ((js_string option \<times> toolcall option) \<times> world)" where
  "selectContent e pv body w =
     (case pv of
        Builtin k \<Rightarrow>
          (case getResponse e pv w of Inl err \<Rightarrow> Inl err | Inr (c, w') \<Rightarrow> Inr ((c, None), w'))
      | Persona p \<Rightarrow>
          let isToolCall = (name p = js ''tool_calls'' \<or>
                            (case b_tools body of Some n \<Rightarrow> 0 < n | None \<Rightarrow> False))
          in if isToolCall \<and> toolCalls p \<noteq> None then
               (case getToolCall e p w of
                  None \<Rightarrow> Inl TypeError
                | Some ((tc, response), w') \<Rightarrow> Inr ((response, tc), w'))
             else
               (case getResponse e pv w of
                  Inl err \<Rightarrow> Inl err
                | Inr (c, w') \<Rightarrow> Inr ((c, None), w')))"

text \<open>
  \<open>chunkString\<close>: \<open>for (i = 0; i < str.length; i += size) chunks.push(str.slice(i, i + size))\<close>.
  The handlers pass the sizes 8 and 12; with size 0 the source loop would not end, and
  the model gives no chunks there.
\<close>

function chunkString :: "'a list \<Rightarrow> nat \<Rightarrow> 'a list list" where
  "chunkString str sz =
     (if str = [] \<or> sz = 0 then [] else take sz str # chunkString (drop sz str) sz)"
  by pat_completeness auto
termination
  by (relation "measure (\<lambda>(str, sz). length str)") auto

declare chunkString.simps [simp del]

text \<open>
  The two shapes of the paced loop.  Both await \<open>sleep(getTokenDelay(config))\<close> before each
  write; \<open>stream_checked\<close> then tests \<open>if (res.destroyed) return\<close> and reports whether the
  loop ran to its end, \<open>stream_unchecked\<close> has no such test.
\<close>

fun stream_unchecked :: "env \<Rightarrow> config \<Rightarrow> ('a \<Rightarrow> frame) \<Rightarrow> 'a list \<Rightarrow> world \<Rightarrow> world" where
  "stream_unchecked e cfg mk [] w = w"
| "stream_unchecked e cfg mk (x # xs) w =
     (let (d, w1) = getTokenDelay e cfg w;
          w2 = sleep d w1;
          w3 = emit (Write (mk x)) w2
      in stream_unchecked e cfg mk xs w3)"

fun stream_checked ::
  "env \<Rightarrow> config \<Rightarrow> ('a \<Rightarrow> frame) \<Rightarrow> 'a list \<Rightarrow> world \<Rightarrow> bool \<times> world" where
  "stream_checked e cfg mk [] w = (True, w)"
| "stream_checked e cfg mk (x # xs) w =
     (let (d, w1) = getTokenDelay e cfg w;
          w2 = sleep d w1
      in if destroyed e w2 then (False, w2)
         else stream_checked e cfg mk xs (emit (Write (mk x)) w2))"

definition json_headers :: "(js_string \<times> js_string) list" where
  "json_headers = [(js ''Content-Type'', js ''application/json'')]"

definition sse_headers :: "(js_string \<times> js_string) list" where
  "sse_headers =
     [(js ''Content-Type'', js ''text/event-stream''),
      (js ''Cache-Control'', js ''no-cache''),
      (js ''Connection'', js ''keep-alive'')]"

section \<open>OpenAI emitter (src/providers/openai.js)\<close>

definition openai_usage :: "int \<Rightarrow> int \<Rightarrow> json" where
  "openai_usage promptTokens completionTokens = JObj
     [(''prompt_tokens'', JNum promptTokens),
      (''completion_tokens'', JNum completionTokens),
      (''total_tokens'', JNum (promptTokens + completionTokens))]"

definition openai_sendNonStreaming ::
  "env \<Rightarrow> js_string \<Rightarrow> int \<Rightarrow> js_string \<Rightarrow> js_string \<Rightarrow> toolcall option \<Rightarrow> int \<Rightarrow> int \<Rightarrow>
     world \<Rightarrow> world" where
  "openai_sendNonStreaming e completionId created model content toolCall promptTokens
       completionTokens w =
     (let (message, w1) =
            (case toolCall of
               Some tc \<Rightarrow>
                 let (callId, w') = generateId e (js ''call'') w
                 in (JObj
                      [(''role'', JStr (js ''assistant'')),
                       (''content'', JNull),
                       (''tool_calls'', JArr [JObj
                          [(''id'', JStr callId),
                           (''type'', JStr (js ''function'')),
                           (''function'', JObj
                              [(''name'', JStr (tc_name tc)),
                               (''arguments'', JStr (JSON_stringify e (tc_arguments tc)))])]])],
                     w')
             | None \<Rightarrow>
                 (JObj [(''role'', JStr (js ''assistant'')), (''content'', JStr content)], w));
          response = JObj
            [(''id'', JStr completionId),
             (''object'', JStr (js ''chat.completion'')),
             (''created'', JNum created),
             (''model'', JStr model),
             (''choices'', JArr [JObj
                [(''index'', JNum 0),
                 (''message'', message),
                 (''finish_reason'',
                    JStr (if toolCall \<noteq> None then js ''tool_calls'' else js ''stop''))]]),
             (''usage'', openai_usage promptTokens completionTokens)]
      in emit (End (Some response)) (emit (WriteHead 200 json_headers) w1))"

text \<open>The chunk documents of \<open>sendStreaming\<close>, each with the delta and finish reason it carries.\<close>

definition openai_chunk :: "js_string \<Rightarrow> int \<Rightarrow> js_string \<Rightarrow> json \<Rightarrow> json \<Rightarrow> (string \<times> json) list" where
  "openai_chunk completionId created model delta finish_reason =
     [(''id'', JStr completionId),
      (''object'', JStr (js ''chat.completion.chunk'')),
      (''created'', JNum created),
      (''model'', JStr model),
      (''choices'', JArr [JObj
         [(''index'', JNum 0), (''delta'', delta), (''finish_reason'', finish_reason)]])]"

definition roleChunk :: "js_string \<Rightarrow> int \<Rightarrow> js_string \<Rightarrow> json" where
  "roleChunk completionId created model = JObj (openai_chunk completionId created model
     (JObj [(''role'', JStr (js ''assistant'')), (''content'', JStr [])]) JNull)"

definition toolChunk :: "js_string \<Rightarrow> int \<Rightarrow> js_string \<Rightarrow> js_string \<Rightarrow> js_string \<Rightarrow> json" where
  "toolChunk completionId created model callId nm = JObj (openai_chunk completionId created model
     (JObj [(''tool_calls'', JArr [JObj
        [(''index'', JNum 0),
         (''id'', JStr callId),
         (''type'', JStr (js ''function'')),
         (''function'', JObj [(''name'', JStr nm), (''arguments'', JStr [])])]])]) JNull)"

definition argChunk :: "js_string \<Rightarrow> int \<Rightarrow> js_string \<Rightarrow> js_string \<Rightarrow> json" where
  "argChunk completionId created model chunk = JObj (openai_chunk completionId created model
     (JObj [(''tool_calls'', JArr [JObj
        [(''index'', JNum 0),
         (''function'', JObj [(''arguments'', JStr chunk)])]])]) JNull)"

definition doneChunk :: "js_string \<Rightarrow> int \<Rightarrow> js_string \<Rightarrow> json" where
  "doneChunk completionId created model = JObj (openai_chunk completionId created model
     (JObj []) (JStr (js ''tool_calls'')))"

definition contentChunk :: "js_string \<Rightarrow> int \<Rightarrow> js_string \<Rightarrow> js_string \<Rightarrow> json" where
  "contentChunk completionId created model token = JObj (openai_chunk completionId created model
     (JObj [(''content'', JStr token)]) JNull)"

definition finalChunk :: "js_string \<Rightarrow> int \<Rightarrow> js_string \<Rightarrow> int \<Rightarrow> int \<Rightarrow> json" where
  "finalChunk completionId created model promptTokens completionTokens = JObj
     (openai_chunk completionId created model (JObj []) (JStr (js ''stop'')) @
      [(''usage'', openai_usage promptTokens completionTokens)])"

definition DONE :: frame where
  "DONE = Raw (js ''data: [DONE]\<newline>\<newline>'')"

definition openai_sendStreaming ::
  "env \<Rightarrow> config \<Rightarrow> js_string \<Rightarrow> int \<Rightarrow> js_string \<Rightarrow> js_string \<Rightarrow> toolcall option \<Rightarrow> int \<Rightarrow> int \<Rightarrow>
     world \<Rightarrow> world" where
  "openai_sendStreaming e cfg completionId created model content toolCall promptTokens
       completionTokens w =
     (let (reqId, w1) = generateId e (js ''req'') w;
          w2 = emit (WriteHead 200 (sse_headers @ [(js ''X-Request-Id'', reqId)])) w1;
          w3 = emit (Write (Data (roleChunk completionId created model))) w2;
          (d, w4) = getFirstTokenDelay e cfg w3;
          w5 = sleep d w4
      in case toolCall of
           Some tc \<Rightarrow>
             let (callId, w6) = generateId e (js ''call'') w5;
                 argsStr = JSON_stringify e (tc_arguments tc);
                 w7 = emit (Write (Data (toolChunk completionId created model callId (tc_name tc)))) w6;
                 argChunks = chunkString argsStr 8;
                 w8 = stream_unchecked e cfg
                        (\<lambda>chunk. Data (argChunk completionId created model chunk)) argChunks w7;
                 w9 = emit (Write (Data (doneChunk completionId created model))) w8
             in emit (End None) (emit (Write DONE) w9)
         | None \<Rightarrow>
             let tokens = tokenize content;
                 (finished, w6) = stream_checked e cfg
                        (\<lambda>token. Data (contentChunk completionId created model token)) tokens w5
             in if \<not> finished then w6
                else
                  let w7 = emit (Write (Data (finalChunk completionId created model promptTokens
                                   completionTokens))) w6
                  in emit (End None) (emit (Write DONE) w7))"

text \<open>
  \<open>handleChatCompletions\<close>.  \<open>estimateTokens(content)\<close> throws a TypeError when \<open>content\<close>
  is \<open>undefined\<close>.
\<close>

definition handleChatCompletions :: "env \<Rightarrow> request_body \<Rightarrow> config \<Rightarrow> world \<Rightarrow> error + world" where
  "handleChatCompletions e body cfg w =
     (let model = string_or (b_model body) (js ''gpt-4'');
          stream = (case b_stream body of Some s \<Rightarrow> s | None \<Rightarrow> False);
          pv = resolvePersona body cfg
      in case selectContent e pv body w of
           Inl err \<Rightarrow> Inl err
         | Inr ((content, toolCall), w1) \<Rightarrow>
             let (completionId, w2) = generateId e (js ''chatcmpl'') w1;
                 created = Date_now e div 1000;
                 promptTokens = estimateTokens (JSON_stringify e (json_or (b_messages body) (JArr [])))
             in case content of
                  None \<Rightarrow> Inl TypeError
                | Some c \<Rightarrow>
                    let completionTokens = estimateTokens c
                    in if \<not> stream then
                         Inr (openai_sendNonStreaming e completionId created model c toolCall
                                promptTokens completionTokens w2)
                       else
                         Inr (openai_sendStreaming e cfg completionId created model c toolCall
                                promptTokens completionTokens w2))"

section \<open>Anthropic emitter (src/providers/anthropic.js)\<close>

definition anthropic_sendNonStreaming ::
  "env \<Rightarrow> js_string \<Rightarrow> js_string \<Rightarrow> js_string \<Rightarrow> toolcall option \<Rightarrow> int \<Rightarrow> int \<Rightarrow>
     world \<Rightarrow> world" where
  "anthropic_sendNonStreaming e messageId model content toolCall inputTokens outputTokens w =
     (let (contentBlocks, w1) =
            (case toolCall of
               Some tc \<Rightarrow>
                 let (toolUseId, w') = generateId e (js ''toolu'') w
                 in ([JObj [(''type'', JStr (js ''text'')), (''text'', JStr content)],
                      JObj [(''type'', JStr (js ''tool_use'')),
                            (''id'', JStr toolUseId),
                            (''name'', JStr (tc_name tc)),
                            (''input'', tc_arguments tc)]],
                     w')
             | None \<Rightarrow> ([JObj [(''type'', JStr (js ''text'')), (''text'', JStr content)]], w));
          response = JObj
            [(''id'', JStr messageId),
             (''type'', JStr (js ''message'')),
             (''role'', JStr (js ''assistant'')),
             (''model'', JStr model),
             (''content'', JArr contentBlocks),
             (''stop_reason'', JStr (if toolCall \<noteq> None then js ''tool_use'' else js ''end_turn'')),
             (''stop_sequence'', JNull),
             (''usage'', JObj
                [(''input_tokens'', JNum inputTokens), (''output_tokens'', JNum outputTokens)])]
      in emit (End (Some response)) (emit (WriteHead 200 json_headers) w1))"

text \<open>\<open>writeSSE(res, event, data)\<close> and the event payloads of \<open>sendStreaming\<close>.\<close>

definition writeSSE :: "js_string \<Rightarrow> json \<Rightarrow> world \<Rightarrow> world" where
  "writeSSE event data w = emit (Write (SSE event data)) w"

definition messageStart :: "js_string \<Rightarrow> js_string \<Rightarrow> int \<Rightarrow> json" where
  "messageStart messageId model inputTokens = JObj
     [(''type'', JStr (js ''message_start'')),
      (''message'', JObj
         [(''id'', JStr messageId),
          (''type'', JStr (js ''message'')),
          (''role'', JStr (js ''assistant'')),
          (''model'', JStr model),
          (''content'', JArr []),
          (''stop_reason'', JNull),
          (''stop_sequence'', JNull),
          (''usage'', JObj [(''input_tokens'', JNum inputTokens), (''output_tokens'', JNum 0)])])]"

definition content_block_start :: "int \<Rightarrow> json \<Rightarrow> json" where
  "content_block_start index content_block = JObj
     [(''type'', JStr (js ''content_block_start'')),
      (''index'', JNum index),
      (''content_block'', content_block)]"

definition text_block :: json where
  "text_block = JObj [(''type'', JStr (js ''text'')), (''text'', JStr [])]"

definition tool_use_block :: "js_string \<Rightarrow> js_string \<Rightarrow> json" where
  "tool_use_block toolUseId nm = JObj
     [(''type'', JStr (js ''tool_use'')),
      (''id'', JStr toolUseId),
      (''name'', JStr nm),
      (''input'', JObj [])]"

definition content_block_delta :: "int \<Rightarrow> json \<Rightarrow> json" where
  "content_block_delta index delta = JObj
     [(''type'', JStr (js ''content_block_delta'')),
      (''index'', JNum index),
      (''delta'', delta)]"

definition text_delta :: "js_string \<Rightarrow> json" where
  "text_delta token = JObj [(''type'', JStr (js ''text_delta'')), (''text'', JStr token)]"

definition input_json_delta :: "js_string \<Rightarrow> json" where
  "input_json_delta chunk = JObj
     [(''type'', JStr (js ''input_json_delta'')), (''partial_json'', JStr chunk)]"

definition content_block_stop :: "int \<Rightarrow> json" where
  "content_block_stop index = JObj
     [(''type'', JStr (js ''content_block_stop'')), (''index'', JNum index)]"

definition message_delta :: "bool \<Rightarrow> int \<Rightarrow> json" where
  "message_delta isTool outputTokens = JObj
     [(''type'', JStr (js ''message_delta'')),
      (''delta'', JObj
         [(''stop_reason'', JStr (if isTool then js ''tool_use'' else js ''end_turn'')),
          (''stop_sequence'', JNull)]),
      (''usage'', JObj [(''output_tokens'', JNum outputTokens)])]"

definition message_stop :: json where
  "message_stop = JObj [(''type'', JStr (js ''message_stop''))]"

text \<open>The end of \<open>sendStreaming\<close>, after the content blocks: \<open>message_delta\<close>, \<open>message_stop\<close>, \<open>res.end()\<close>.\<close>

definition anthropic_finish :: "bool \<Rightarrow> int \<Rightarrow> world \<Rightarrow> world" where
  "anthropic_finish isTool outputTokens w =
     emit (End None)
       (writeSSE (js ''message_stop'') message_stop
          (writeSSE (js ''message_delta'') (message_delta isTool outputTokens) w))"

definition anthropic_sendStreaming ::
  "env \<Rightarrow> config \<Rightarrow> js_string \<Rightarrow> js_string \<Rightarrow> js_string \<Rightarrow> toolcall option \<Rightarrow> int \<Rightarrow> int \<Rightarrow>
     world \<Rightarrow> world" where
  "anthropic_sendStreaming e cfg messageId model content toolCall inputTokens outputTokens w =
     (let (reqId, w1) = generateId e (js ''req'') w;
          w2 = emit (WriteHead 200 (sse_headers @ [(js ''X-Request-Id'', reqId)])) w1;
          w3 = writeSSE (js ''message_start'') (messageStart messageId model inputTokens) w2;
          (d, w4) = getFirstTokenDelay e cfg w3;
          w5 = sleep d w4
      in case toolCall of
           Some tc \<Rightarrow>
             let w6 = writeSSE (js ''content_block_start'') (content_block_start 0 text_block) w5;
                 tokens = tokenize content;
                 (finished, w7) = stream_checked e cfg
                    (\<lambda>token. SSE (js ''content_block_delta'')
                               (content_block_delta 0 (text_delta token)))
                    tokens w6
             in if \<not> finished then w7
                else
                  let w8 = writeSSE (js ''content_block_stop'') (content_block_stop 0) w7;
                      (toolUseId, w9) = generateId e (js ''toolu'') w8;
                      w10 = writeSSE (js ''content_block_start'')
                              (content_block_start 1 (tool_use_block toolUseId (tc_name tc))) w9;
                      argsStr = JSON_stringify e (tc_arguments tc);
                      argChunks = chunkString argsStr 12;
                      (finished2, w11) = stream_checked e cfg
                         (\<lambda>chunk. SSE (js ''content_block_delta'')
                                    (content_block_delta 1 (input_json_delta chunk)))
                         argChunks w10
                  in if \<not> finished2 then w11
                     else anthropic_finish True outputTokens
                            (writeSSE (js ''content_block_stop'') (content_block_stop 1) w11)
         | None \<Rightarrow>
             let w6 = writeSSE (js ''content_block_start'') (content_block_start 0 text_block) w5;
                 tokens = tokenize content;
                 (finished, w7) = stream_checked e cfg
                    (\<lambda>token. SSE (js ''content_block_delta'')
                               (content_block_delta 0 (text_delta token)))
                    tokens w6
             in if \<not> finished then w7
                else anthropic_finish False outputTokens
                       (writeSSE (js ''content_block_stop'') (content_block_stop 0) w7))"

definition handleMessages :: "env \<Rightarrow> request_body \<Rightarrow> config \<Rightarrow> world \<Rightarrow> error + world" where
  "handleMessages e body cfg w =
     (let model = string_or (b_model body) (js ''claude-sonnet-4-20250514'');
          stream = (case b_stream body of Some s \<Rightarrow> s | None \<Rightarrow> False);
          pv = resolvePersona body cfg
      in case selectContent e pv body w of
           Inl err \<Rightarrow> Inl err
         | Inr ((content, toolCall), w1) \<Rightarrow>
             let (messageId, w2) = generateId e (js ''msg'') w1;
                 inputTokens = estimateTokens (JSON_stringify e (json_or (b_messages body) (JArr [])))
             in case content of
                  None \<Rightarrow> Inl TypeError
                | Some c \<Rightarrow>
                    let outputTokens = estimateTokens c
                    in if \<not> stream then
                         Inr (anthropic_sendNonStreaming e messageId model c toolCall inputTokens
                                outputTokens w2)
                       else
                         Inr (anthropic_sendStreaming e cfg messageId model c toolCall inputTokens
                                outputTokens w2))"

section \<open>Gemini emitter (src/providers/gemini.js)\<close>

definition makeSafetyRatings :: json where
  "makeSafetyRatings = JArr
     [JObj [(''category'', JStr (js ''HARM_CATEGORY_SEXUALLY_EXPLICIT'')),
            (''probability'', JStr (js ''NEGLIGIBLE''))],
      JObj [(''category'', JStr (js ''HARM_CATEGORY_HATE_SPEECH'')),
            (''probability'', JStr (js ''NEGLIGIBLE''))],
      JObj [(''category'', JStr (js ''HARM_CATEGORY_HARASSMENT'')),
            (''probability'', JStr (js ''NEGLIGIBLE''))],
      JObj [(''category'', JStr (js ''HARM_CATEGORY_DANGEROUS_CONTENT'')),
            (''probability'', JStr (js ''NEGLIGIBLE''))]]"

definition usageMetadata :: "int \<Rightarrow> int \<Rightarrow> json" where
  "usageMetadata promptTokens completionTokens = JObj
     [(''promptTokenCount'', JNum promptTokens),
      (''candidatesTokenCount'', JNum completionTokens),
      (''totalTokenCount'', JNum (promptTokens + completionTokens))]"

text \<open>
  The document of a tool call, which \<open>sendNonStreaming\<close> sends whole and \<open>sendStreaming\<close>
  writes as its single chunk, and the document of a text answer.
\<close>

definition gemini_tool_document :: "js_string \<Rightarrow> toolcall \<Rightarrow> int \<Rightarrow> int \<Rightarrow> json" where
  "gemini_tool_document model tc promptTokens completionTokens = JObj
     [(''candidates'', JArr [JObj
         [(''content'', JObj
             [(''parts'', JArr [JObj [(''functionCall'', JObj
                 [(''name'', JStr (tc_name tc)), (''args'', tc_arguments tc)])]]),
              (''role'', JStr (js ''model''))]),
          (''finishReason'', JStr (js ''TOOL_CALLS'')),
          (''index'', JNum 0),
          (''safetyRatings'', makeSafetyRatings)]]),
      (''usageMetadata'', usageMetadata promptTokens completionTokens),
      (''modelVersion'', JStr model)]"

definition gemini_text_document :: "js_string \<Rightarrow> js_string \<Rightarrow> int \<Rightarrow> int \<Rightarrow> json" where
  "gemini_text_document model content promptTokens completionTokens = JObj
     [(''candidates'', JArr [JObj
         [(''content'', JObj
             [(''parts'', JArr [JObj [(''text'', JStr content)]]),
              (''role'', JStr (js ''model''))]),
          (''finishReason'', JStr (js ''STOP'')),
          (''index'', JNum 0),
          (''safetyRatings'', makeSafetyRatings)]]),
      (''usageMetadata'', usageMetadata promptTokens completionTokens),
      (''modelVersion'', JStr model)]"

definition gemini_sendNonStreaming ::
  "js_string \<Rightarrow> js_string \<Rightarrow> toolcall option \<Rightarrow> int \<Rightarrow> int \<Rightarrow> world \<Rightarrow> world" where
  "gemini_sendNonStreaming model content toolCall promptTokens completionTokens w =
     (let response =
            (case toolCall of
               Some tc \<Rightarrow> gemini_tool_document model tc promptTokens completionTokens
             | None \<Rightarrow> gemini_text_document model content promptTokens completionTokens)
      in emit (End (Some response)) (emit (WriteHead 200 json_headers) w))"

text \<open>
  The chunk of token \<open>i\<close> in the streaming loop; the spreads
  \<open>...(isLast ? {...} : {})\<close> add \<open>finishReason\<close>, \<open>safetyRatings\<close> and \<open>usageMetadata\<close>.
\<close>

definition gemini_chunk :: "js_string \<Rightarrow> int \<Rightarrow> int \<Rightarrow> bool \<Rightarrow> js_string \<Rightarrow> json" where
  "gemini_chunk model promptTokens completionTokens isLast token = JObj
     ([(''candidates'', JArr [JObj
         ([(''content'', JObj
              [(''parts'', JArr [JObj [(''text'', JStr token)]]),
               (''role'', JStr (js ''model''))])] @
          (if isLast
           then [(''finishReason'', JStr (js ''STOP'')), (''safetyRatings'', makeSafetyRatings)]
           else []) @
          [(''index'', JNum 0)])])] @
      (if isLast then [(''usageMetadata'', usageMetadata promptTokens completionTokens)] else []) @
      [(''modelVersion'', JStr model)])"

definition gemini_sendStreaming ::
  "env \<Rightarrow> config \<Rightarrow> js_string \<Rightarrow> js_string \<Rightarrow> toolcall option \<Rightarrow> int \<Rightarrow> int \<Rightarrow> world \<Rightarrow> world" where
  "gemini_sendStreaming e cfg model content toolCall promptTokens completionTokens w =
     (let w1 = emit (WriteHead 200 sse_headers) w;
          (d, w2) = getFirstTokenDelay e cfg w1;
          w3 = sleep d w2
      in case toolCall of
           Some tc \<Rightarrow>
             emit (End None)
               (emit (Write (Data (gemini_tool_document model tc promptTokens completionTokens))) w3)
         | None \<Rightarrow>
             let tokens = tokenize content;
                 (finished, w4) = stream_checked e cfg
                    (\<lambda>(i, token). Data (gemini_chunk model promptTokens completionTokens
                                          (i = length tokens - 1) token))
                    (enumerate 0 tokens) w3
             in if \<not> finished then w4 else emit (End None) w4)"

text \<open>
  \<open>handleGenerateContent\<close>; \<open>model\<close> and \<open>stream\<close> come from the request path.
\<close>

definition handleGenerateContent ::
  "env \<Rightarrow> request_body \<Rightarrow> config \<Rightarrow> js_string \<Rightarrow> bool \<Rightarrow> world \<Rightarrow> error + world" where
  "handleGenerateContent e body cfg model stream w =
     (let pv = resolvePersona body cfg
      in case selectContent e pv body w of
           Inl err \<Rightarrow> Inl err
         | Inr ((content, toolCall), w1) \<Rightarrow>
             let promptTokens = estimateTokens (JSON_stringify e (json_or (b_contents body) (JArr [])))
             in case content of
                  None \<Rightarrow> Inl TypeError
                | Some c \<Rightarrow>
                    let completionTokens = estimateTokens c
                    in if \<not> stream then
                         Inr (gemini_sendNonStreaming model c toolCall promptTokens completionTokens w1)
                       else
                         Inr (gemini_sendStreaming e cfg model c toolCall promptTokens
                                completionTokens w1))"

section \<open>Dispatch (src/server.js)\<close>

text \<open>
  \<open>routeToProvider\<close>, which the request callback calls once the chaos check has passed
  (and, on a slowdown, with the scaled latencies); \<open>meta\<close> is \<open>{model, stream}\<close> of a Gemini
  path.  Another provider name falls through all three tests and nothing is sent.
\<close>

definition routeToProvider ::
  "env \<Rightarrow> js_string \<Rightarrow> request_body \<Rightarrow> config \<Rightarrow> js_string \<times> bool \<Rightarrow> world \<Rightarrow> error + world" where
  "routeToProvider e provider body cfg meta w =
     (if provider = js ''openai'' then handleChatCompletions e body cfg w
      else if provider = js ''anthropic'' then handleMessages e body cfg w
      else if provider = js ''gemini'' then handleGenerateContent e body cfg (fst meta) (snd meta) w
      else Inr w)"

text \<open>A new response object, after \<open>n\<close> earlier calls of \<open>Math.random()\<close> in the process.\<close>

definition fresh :: "nat \<Rightarrow> world" where
  "fresh n = \<lparr>drawn = n, slept = 0, out = []\<rparr>"

text \<open>The frames written, in order, and reading a JSON document along a path.\<close>

fun writes :: "event list \<Rightarrow> frame list" where
  "writes [] = []"
| "writes (Write f # evs) = f # writes evs"
| "writes (ev # evs) = writes evs"

fun sleeps :: "event list \<Rightarrow> int list" where
  "sleeps [] = []"
| "sleeps (Sleep d # evs) = d # sleeps evs"
| "sleeps (ev # evs) = sleeps evs"

datatype step = Key string | Index nat

fun at_path :: "step list \<Rightarrow> json \<Rightarrow> json option" where
  "at_path [] j = Some j"
| "at_path (Key k # p) (JObj kvs) = (case map_of kvs k of Some v \<Rightarrow> at_path p v | None \<Rightarrow> None)"
| "at_path (Index i # p) (JArr xs) = (if i < length xs then at_path p (xs ! i) else None)"
| "at_path (s # p) j = None"

section \<open>Reading the effects of a handler\<close>

text \<open>
  A stream has run to completion when its last effect is \<open>res.end()\<close>.  The loops add only
  sleeps and writes.  The accessors read from a frame what the claims speak of: the delta
  and finish reason of an OpenAI chunk, the finish reason and usage metadata of a Gemini
  chunk, the event name of an Anthropic frame, the type of the content block it starts
  and the stop reason it carries.
\<close>

definition completed :: "world \<Rightarrow> bool" where
  "completed w \<longleftrightarrow> out w \<noteq> [] \<and> last (out w) = End None"

fun paced :: "event \<Rightarrow> bool" where
  "paced (Sleep d) = True"
| "paced (Write f) = True"
| "paced ev = False"

fun is_End :: "event \<Rightarrow> bool" where
  "is_End (End d) = True"
| "is_End ev = False"

fun frame_json :: "frame \<Rightarrow> json option" where
  "frame_json (Data j) = Some j"
| "frame_json (SSE ev j) = Some j"
| "frame_json (Raw t) = None"

definition read :: "step list \<Rightarrow> frame \<Rightarrow> json option" where
  "read p f = (case frame_json f of Some j \<Rightarrow> at_path p j | None \<Rightarrow> None)"

definition openai_delta :: "frame \<Rightarrow> json option" where
  "openai_delta = read [Key ''choices'', Index 0, Key ''delta'']"

definition openai_finish_reason :: "frame \<Rightarrow> json option" where
  "openai_finish_reason = read [Key ''choices'', Index 0, Key ''finish_reason'']"

definition gemini_finishReason :: "frame \<Rightarrow> json option" where
  "gemini_finishReason = read [Key ''candidates'', Index 0, Key ''finishReason'']"

definition gemini_usageMetadata :: "frame \<Rightarrow> json option" where
  "gemini_usageMetadata = read [Key ''usageMetadata'']"

fun sse_event :: "frame \<Rightarrow> js_string option" where
  "sse_event (SSE ev j) = Some ev"
| "sse_event f = None"




section \<open>Sample inputs\<close>

text \<open>
  A runtime whose \<open>Math.random()\<close> always returns \<open>r\<close> and whose peer closes the
  connection as \<open>k\<close> says, a configuration with fault injection switched on (what
  \<open>--chaos\<close> merges into the defaults), a request body with no property set, and one
  with a \<open>_persona\<close> and a \<open>stream\<close> property.
\<close>

definition sample_env :: "real \<Rightarrow> nat option \<Rightarrow> env" where
  "sample_env r k = \<lparr>
     random_values = (\<lambda>n. r),
     Date_now = 0,
     JSON_stringify = (\<lambda>j. js ''{}''),
     builtin_property = (\<lambda>k p. Falsy),
     closed_at = k\<rparr>"

definition chaos_enabled :: config where
  "chaos_enabled = DEFAULTS\<lparr>chaos := (chaos DEFAULTS)\<lparr>enabled := True\<rparr>\<rparr>"

definition empty_body :: request_body where
  "empty_body = \<lparr>b_model = None, b_stream = None, b_persona = None, b_tools = None,
     b_messages = None, b_contents = None\<rparr>"

definition request_with :: "js_string option \<Rightarrow> bool \<Rightarrow> request_body" where
  "request_with hint streaming = empty_body\<lparr>b_persona := hint, b_stream := Some streaming\<rparr>"

section \<open>Auxiliary lemmas\<close>

subsection \<open>Strings\<close>

lemma js_char_inj: "inj (\<lambda>c::char. (word_of_nat (of_char c) :: 16 word))"
proof (rule injI)
  fix c d :: char
  assume h: "(word_of_nat (of_char c) :: 16 word) = word_of_nat (of_char d)"
  have b: "(of_char x :: nat) < 2 ^ 16" for x :: char
    by (rule less_trans [OF nat_of_char_less_256]) simp
  have "take_bit 16 (of_char c :: nat) = take_bit 16 (of_char d :: nat)"
    using h by (simp add: word_of_nat_eq_iff)
  then have "(of_char c :: nat) = of_char d"
    using b [of c] b [of d] by (simp add: take_bit_nat_eq_self)
  then show "c = d" by simp
qed

lemma js_eq_iff [simp]: "js a = js b \<longleftrightarrow> a = b"
  unfolding js_def by (rule inj_map_eq_map [OF js_char_inj])

lemma js_Nil_iff [simp]: "js a = [] \<longleftrightarrow> a = []"
  by (simp add: js_def)

lemma js_Nil_iff2 [simp]: "[] = js a \<longleftrightarrow> a = []"
  by (auto simp: js_def)

lemma length_js [simp]: "length (js s) = length s"
  by (simp add: js_def)

lemma js_mem_image [simp]: "js s \<in> js ` A \<longleftrightarrow> s \<in> A"
  by (auto simp: image_iff)

lemma estimateTokens_div: "estimateTokens t = (int (length t) + 3) div 4"
proof -
  have "\<lceil>real_of_int (int (length t)) / real_of_int 4\<rceil> = - (- int (length t) div 4)"
    by (rule ceiling_divide_eq_div)
  then show ?thesis by (simp add: estimateTokens_def)
qed

subsection \<open>The world across the primitive steps\<close>

lemma Math_random_fst [simp]: "fst (Math_random e w) = random_values e (drawn w)"
  by (simp add: Math_random_def)

lemma Math_random_snd [simp]: "snd (Math_random e w) = w\<lparr>drawn := Suc (drawn w)\<rparr>"
  by (simp add: Math_random_def)

lemma emit_simps [simp]:
  "out (emit ev w) = out w @ [ev]" "slept (emit ev w) = slept w" "drawn (emit ev w) = drawn w"
  by (simp_all add: emit_def)

lemma sleep_simps [simp]:
  "out (sleep d w) = out w @ [Sleep d]" "slept (sleep d w) = Suc (slept w)"
  "drawn (sleep d w) = drawn w"
  by (simp_all add: sleep_def)

lemma writeSSE_simps [simp]:
  "out (writeSSE ev j w) = out w @ [Write (SSE ev j)]" "slept (writeSSE ev j w) = slept w"
  "drawn (writeSSE ev j w) = drawn w"
  by (simp_all add: writeSSE_def)

lemma getTokenDelay_snd [simp]: "snd (getTokenDelay e cfg w) = w\<lparr>drawn := Suc (drawn w)\<rparr>"
  by (simp add: getTokenDelay_def Let_def split_def)

lemma getFirstTokenDelay_snd [simp]:
  "snd (getFirstTokenDelay e cfg w) = w\<lparr>drawn := Suc (drawn w)\<rparr>"
  by (simp add: getFirstTokenDelay_def Let_def split_def)

lemma generateId_loop_snd: "snd (generateId_loop e n w) = w\<lparr>drawn := drawn w + n\<rparr>"
  by (induction n arbitrary: w) (simp_all add: Let_def split_def)

lemma generateId_snd [simp]: "snd (generateId e p w) = w\<lparr>drawn := drawn w + 24\<rparr>"
  by (simp add: generateId_def Let_def split_def generateId_loop_snd)

lemma destroyed_open [simp]: "closed_at e = None \<Longrightarrow> \<not> destroyed e w"
  by (simp add: destroyed_def)

lemma writes_append [simp]: "writes (xs @ ys) = writes xs @ writes ys"
  by (induction xs rule: writes.induct) simp_all

lemma sleeps_append [simp]: "sleeps (xs @ ys) = sleeps xs @ sleeps ys"
  by (induction xs rule: sleeps.induct) simp_all

subsection \<open>The paced loops\<close>

lemma stream_checked_returned_last:
  "\<not> fst (stream_checked e cfg mk xs w) \<Longrightarrow>
   \<exists>pre d. out (snd (stream_checked e cfg mk xs w)) = pre @ [Sleep d]"
proof (induction xs arbitrary: w)
  case Nil
  then show ?case by simp
next
  case (Cons x xs)
  let ?d = "fst (getTokenDelay e cfg w)"
  let ?w2 = "sleep ?d (snd (getTokenDelay e cfg w))"
  show ?case
  proof (cases "destroyed e ?w2")
    case True
    then have "out (snd (stream_checked e cfg mk (x # xs) w)) = out w @ [Sleep ?d]"
      by (simp add: Let_def split_def)
    then show ?thesis by blast
  next
    case False
    with Cons.prems have "\<not> fst (stream_checked e cfg mk xs (emit (Write (mk x)) ?w2))"
      by (simp add: Let_def split_def)
    from Cons.IH [OF this] False show ?thesis
      by (simp add: Let_def split_def)
  qed
qed

lemma stream_checked_open:
  "closed_at e = None \<Longrightarrow> fst (stream_checked e cfg mk xs w)"
  by (induction xs arbitrary: w) (simp_all add: Let_def split_def)

lemma paced_not_End: "list_all paced evs \<Longrightarrow> ev \<in> set evs \<Longrightarrow> \<not> is_End ev"
  by (cases ev) (auto simp: list_all_iff)

lemma stream_unchecked_events:
  "\<exists>evs. out (stream_unchecked e cfg mk xs w) = out w @ evs \<and> writes evs = map mk xs \<and>
         list_all paced evs"
proof (induction xs arbitrary: w)
  case Nil
  show ?case by simp
next
  case (Cons x xs)
  let ?d = "fst (getTokenDelay e cfg w)"
  let ?w3 = "emit (Write (mk x)) (sleep ?d (snd (getTokenDelay e cfg w)))"
  from Cons [of ?w3] obtain evs where
    evs: "out (stream_unchecked e cfg mk xs ?w3) = out ?w3 @ evs" "writes evs = map mk xs"
         "list_all paced evs"
    by blast
  have "out (stream_unchecked e cfg mk (x # xs) w) = out w @ ([Sleep ?d, Write (mk x)] @ evs)"
    using evs(1) by (simp add: Let_def split_def)
  moreover have "writes ([Sleep ?d, Write (mk x)] @ evs) = map mk (x # xs)"
    using evs(2) by simp
  moreover have "list_all paced ([Sleep ?d, Write (mk x)] @ evs)"
    using evs(3) by simp
  ultimately show ?case by blast
qed

lemma stream_checked_finished_events:
  "fst (stream_checked e cfg mk xs w) \<Longrightarrow>
   \<exists>evs. out (snd (stream_checked e cfg mk xs w)) = out w @ evs \<and> writes evs = map mk xs \<and>
         list_all paced evs"
proof (induction xs arbitrary: w)
  case Nil
  show ?case by simp
next
  case (Cons x xs)
  let ?d = "fst (getTokenDelay e cfg w)"
  let ?w2 = "sleep ?d (snd (getTokenDelay e cfg w))"
  let ?w3 = "emit (Write (mk x)) ?w2"
  from Cons.prems have alive: "\<not> destroyed e ?w2" and fin: "fst (stream_checked e cfg mk xs ?w3)"
    by (simp_all add: Let_def split_def split: if_splits)
  from Cons.IH [OF fin] obtain evs where
    evs: "out (snd (stream_checked e cfg mk xs ?w3)) = out ?w3 @ evs" "writes evs = map mk xs"
         "list_all paced evs"
    by blast
  have "out (snd (stream_checked e cfg mk (x # xs) w)) = out w @ ([Sleep ?d, Write (mk x)] @ evs)"
    using alive evs(1) by (simp add: Let_def split_def)
  moreover have "writes ([Sleep ?d, Write (mk x)] @ evs) = map mk (x # xs)"
    using evs(2) by simp
  moreover have "list_all paced ([Sleep ?d, Write (mk x)] @ evs)"
    using evs(3) by simp
  ultimately show ?case by blast
qed

lemma stream_checked_finished_last:
  assumes "fst (stream_checked e cfg mk (xs @ [x]) w)"
  shows "\<exists>evs. out (snd (stream_checked e cfg mk (xs @ [x]) w)) = out w @ evs @ [Write (mk x)] \<and>
               writes evs = map mk xs \<and> list_all paced evs"
  using assms
proof (induction xs arbitrary: w)
  case Nil
  let ?d = "fst (getTokenDelay e cfg w)"
  from Nil have "out (snd (stream_checked e cfg mk ([] @ [x]) w)) = out w @ [Sleep ?d] @ [Write (mk x)]"
    by (simp add: Let_def split_def split: if_splits)
  moreover have "writes [Sleep ?d] = map mk []" "list_all paced [Sleep ?d]"
    by simp_all
  ultimately show ?case by blast
next
  case (Cons y ys)
  let ?d = "fst (getTokenDelay e cfg w)"
  let ?w2 = "sleep ?d (snd (getTokenDelay e cfg w))"
  let ?w3 = "emit (Write (mk y)) ?w2"
  from Cons.prems have alive: "\<not> destroyed e ?w2"
    and fin: "fst (stream_checked e cfg mk (ys @ [x]) ?w3)"
    by (simp_all add: Let_def split_def split: if_splits)
  from Cons.IH [OF fin] obtain evs where
    evs: "out (snd (stream_checked e cfg mk (ys @ [x]) ?w3)) = out ?w3 @ evs @ [Write (mk x)]"
         "writes evs = map mk ys" "list_all paced evs"
    by blast
  have "out (snd (stream_checked e cfg mk ((y # ys) @ [x]) w)) =
        out w @ ([Sleep ?d, Write (mk y)] @ evs) @ [Write (mk x)]"
    using alive evs(1) by (simp add: Let_def split_def)
  moreover have "writes ([Sleep ?d, Write (mk y)] @ evs) = map mk (y # ys)"
    using evs(2) by simp
  moreover have "list_all paced ([Sleep ?d, Write (mk y)] @ evs)"
    using evs(3) by simp
  ultimately show ?case by blast
qed

lemma completed_snoc [simp]: "completed (emit (End None) w)"
  by (simp add: completed_def)

lemma not_completed_Sleep: "out w = pre @ [Sleep d] \<Longrightarrow> \<not> completed w"
  by (simp add: completed_def)

lemma stream_checked_returned_not_completed:
  "\<not> fst (stream_checked e cfg mk xs w) \<Longrightarrow> \<not> completed (snd (stream_checked e cfg mk xs w))"
  using stream_checked_returned_last [of e cfg mk xs w] not_completed_Sleep by blast

subsection \<open>Content selection\<close>

lemma at_index_mem: "at_index xs i = Some x \<Longrightarrow> x \<in> set xs"
  by (auto simp: at_index_def split: if_splits)

lemma at_index_in_range:
  "0 \<le> r \<Longrightarrow> r < 1 \<Longrightarrow> xs \<noteq> [] \<Longrightarrow> \<exists>x. at_index xs \<lfloor>r * real (length xs)\<rfloor> = Some x"
proof -
  assume r: "0 \<le> r" "r < 1" and xs: "xs \<noteq> []"
  have "0 \<le> r * real (length xs)" using r by simp
  then have lo: "0 \<le> \<lfloor>r * real (length xs)\<rfloor>" by simp
  have "r * real (length xs) < real (length xs)" using r xs by simp
  then have hi: "\<lfloor>r * real (length xs)\<rfloor> < int (length xs)" by (simp add: floor_less_iff)
  from lo hi show ?thesis by (simp add: at_index_def)
qed

lemma selectContent_Inr:
  assumes "selectContent e pv body w = Inr ((c, tc), w1)"
  shows "\<exists>p. pv = Persona p \<and> w1 = w\<lparr>drawn := Suc (drawn w)\<rparr> \<and>
             (\<forall>t. c = Some t \<longrightarrow> t \<in> set (responses p))"
proof (cases pv)
  case (Builtin k)
  with assms show ?thesis by (simp add: selectContent_def)
next
  case (Persona p)
  with assms show ?thesis
    by (auto simp: selectContent_def getToolCall_def Let_def split_def
          split: if_splits option.splits dest: at_index_mem)
qed

lemma resolvePersona_catalog: "resolvePersona body cfg = Persona p \<Longrightarrow> p \<in> snd ` set personas"
proof -
  assume a: "resolvePersona body cfg = Persona p"
  let ?hint = "string_or (b_persona body) (persona (defaults cfg))"
  have bal: "persona_balanced \<in> snd ` set personas"
    by (simp add: personas_def)
  show ?thesis
  proof (cases "map_of personas ?hint")
    case None
    with a bal show ?thesis
      by (auto simp: resolvePersona_def getPersona_def get_property_def Let_def split: if_splits)
  next
    case (Some q)
    with a have "q = p"
      by (simp add: resolvePersona_def getPersona_def get_property_def Let_def)
    with Some have "(?hint, p) \<in> set personas" by (simp add: map_of_SomeD)
    then show ?thesis by force
  qed
qed

lemma catalog_responses_nonempty:
  "p \<in> snd ` set personas \<Longrightarrow> t \<in> set (responses p) \<Longrightarrow> t \<noteq> []"
  by (auto simp: personas_def persona_balanced_def persona_verbose_def persona_terse_def
        persona_code_def persona_markdown_def persona_tool_calls_def persona_error_prone_def)

subsection \<open>The shape of an OpenAI stream\<close>

lemma openai_tool_stream_shape:
  "\<exists>hdrs d callId evs.
     out (openai_sendStreaming e cfg cid created model content (Some tc) pt ct w) =
       out w @ [WriteHead 200 hdrs, Write (Data (roleChunk cid created model)), Sleep d,
                Write (Data (toolChunk cid created model callId (tc_name tc)))] @ evs @
               [Write (Data (doneChunk cid created model)), Write DONE, End None] \<and>
     writes evs = map (\<lambda>chunk. Data (argChunk cid created model chunk))
                    (chunkString (JSON_stringify e (tc_arguments tc)) 8) \<and>
     list_all paced evs"
proof -
  let ?mk = "\<lambda>chunk. Data (argChunk cid created model chunk)"
  let ?chunks = "chunkString (JSON_stringify e (tc_arguments tc)) 8"
  let ?w1 = "snd (generateId e (js ''req'') w)"
  let ?hdrs = "sse_headers @ [(js ''X-Request-Id'', fst (generateId e (js ''req'') w))]"
  let ?w3 = "emit (Write (Data (roleChunk cid created model))) (emit (WriteHead 200 ?hdrs) ?w1)"
  let ?d = "fst (getFirstTokenDelay e cfg ?w3)"
  let ?w5 = "sleep ?d (snd (getFirstTokenDelay e cfg ?w3))"
  let ?callId = "fst (generateId e (js ''call'') ?w5)"
  let ?w7 = "emit (Write (Data (toolChunk cid created model ?callId (tc_name tc))))
               (snd (generateId e (js ''call'') ?w5))"
  from stream_unchecked_events [of e cfg ?mk ?chunks ?w7] obtain evs where
    evs: "out (stream_unchecked e cfg ?mk ?chunks ?w7) = out ?w7 @ evs"
         "writes evs = map ?mk ?chunks" "list_all paced evs"
    by blast
  have "out (openai_sendStreaming e cfg cid created model content (Some tc) pt ct w) =
          out w @ [WriteHead 200 ?hdrs, Write (Data (roleChunk cid created model)), Sleep ?d,
                   Write (Data (toolChunk cid created model ?callId (tc_name tc)))] @ evs @
                  [Write (Data (doneChunk cid created model)), Write DONE, End None]"
    using evs(1) by (simp add: openai_sendStreaming_def Let_def split_def)
  with evs(2,3) show ?thesis by blast
qed

lemma openai_text_stream_shape:
  "\<not> completed (openai_sendStreaming e cfg cid created model content None pt ct w) \<or>
   (\<exists>hdrs d evs.
     out (openai_sendStreaming e cfg cid created model content None pt ct w) =
       out w @ [WriteHead 200 hdrs, Write (Data (roleChunk cid created model)), Sleep d] @ evs @
               [Write (Data (finalChunk cid created model pt ct)), Write DONE, End None] \<and>
     writes evs = map (\<lambda>token. Data (contentChunk cid created model token)) (tokenize content) \<and>
     list_all paced evs)"
proof -
  let ?mk = "\<lambda>token. Data (contentChunk cid created model token)"
  let ?w1 = "snd (generateId e (js ''req'') w)"
  let ?hdrs = "sse_headers @ [(js ''X-Request-Id'', fst (generateId e (js ''req'') w))]"
  let ?w3 = "emit (Write (Data (roleChunk cid created model))) (emit (WriteHead 200 ?hdrs) ?w1)"
  let ?d = "fst (getFirstTokenDelay e cfg ?w3)"
  let ?w5 = "sleep ?d (snd (getFirstTokenDelay e cfg ?w3))"
  let ?loop = "stream_checked e cfg ?mk (tokenize content) ?w5"
  show ?thesis
  proof (cases "fst ?loop")
    case False
    from stream_checked_returned_not_completed [OF False] False show ?thesis
      by (simp add: openai_sendStreaming_def Let_def split_def)
  next
    case True
    from stream_checked_finished_events [OF True] obtain evs where
      evs: "out (snd ?loop) = out ?w5 @ evs" "writes evs = map ?mk (tokenize content)"
           "list_all paced evs"
      by blast
    have "out (openai_sendStreaming e cfg cid created model content None pt ct w) =
            out w @ [WriteHead 200 ?hdrs, Write (Data (roleChunk cid created model)), Sleep ?d] @ evs @
                    [Write (Data (finalChunk cid created model pt ct)), Write DONE, End None]"
      using True evs(1) by (simp add: openai_sendStreaming_def Let_def split_def)
    with evs(2,3) show ?thesis by blast
  qed
qed

lemma openai_stream_open:
  "closed_at e = None \<Longrightarrow> completed (openai_sendStreaming e cfg cid created model content tc pt ct w)"
  by (cases tc) (simp_all add: openai_sendStreaming_def Let_def split_def stream_checked_open)

subsection \<open>The shape of an Anthropic stream\<close>

lemma anthropic_tool_stream_shape:
  "\<not> completed (anthropic_sendStreaming e cfg mid model content (Some tc) inTok outTok w) \<or>
   (\<exists>hdrs d tid evs1 evs2.
     out (anthropic_sendStreaming e cfg mid model content (Some tc) inTok outTok w) =
       out w @
       [WriteHead 200 hdrs,
        Write (SSE (js ''message_start'') (messageStart mid model inTok)),
        Sleep d,
        Write (SSE (js ''content_block_start'') (content_block_start 0 text_block))] @ evs1 @
       [Write (SSE (js ''content_block_stop'') (content_block_stop 0)),
        Write (SSE (js ''content_block_start'')
                 (content_block_start 1 (tool_use_block tid (tc_name tc))))] @ evs2 @
       [Write (SSE (js ''content_block_stop'') (content_block_stop 1)),
        Write (SSE (js ''message_delta'') (message_delta True outTok)),
        Write (SSE (js ''message_stop'') message_stop),
        End None] \<and>
     writes evs1 = map (\<lambda>token. SSE (js ''content_block_delta'')
                                 (content_block_delta 0 (text_delta token))) (tokenize content) \<and>
     list_all paced evs1 \<and>
     writes evs2 = map (\<lambda>chunk. SSE (js ''content_block_delta'')
                                 (content_block_delta 1 (input_json_delta chunk)))
                     (chunkString (JSON_stringify e (tc_arguments tc)) 12) \<and>
     list_all paced evs2)"
proof -
  let ?mk1 = "\<lambda>token. SSE (js ''content_block_delta'') (content_block_delta 0 (text_delta token))"
  let ?mk2 = "\<lambda>chunk. SSE (js ''content_block_delta'') (content_block_delta 1 (input_json_delta chunk))"
  let ?chunks = "chunkString (JSON_stringify e (tc_arguments tc)) 12"
  let ?hdrs = "sse_headers @ [(js ''X-Request-Id'', fst (generateId e (js ''req'') w))]"
  let ?w3 = "writeSSE (js ''message_start'') (messageStart mid model inTok)
               (emit (WriteHead 200 ?hdrs) (snd (generateId e (js ''req'') w)))"
  let ?d = "fst (getFirstTokenDelay e cfg ?w3)"
  let ?w6 = "writeSSE (js ''content_block_start'') (content_block_start 0 text_block)
               (sleep ?d (snd (getFirstTokenDelay e cfg ?w3)))"
  let ?loop1 = "stream_checked e cfg ?mk1 (tokenize content) ?w6"
  let ?w8 = "writeSSE (js ''content_block_stop'') (content_block_stop 0) (snd ?loop1)"
  let ?tid = "fst (generateId e (js ''toolu'') ?w8)"
  let ?w10 = "writeSSE (js ''content_block_start'')
                (content_block_start 1 (tool_use_block ?tid (tc_name tc)))
                (snd (generateId e (js ''toolu'') ?w8))"
  let ?loop2 = "stream_checked e cfg ?mk2 ?chunks ?w10"
  show ?thesis
  proof (cases "fst ?loop1")
    case False
    from stream_checked_returned_not_completed [OF False] False show ?thesis
      by (simp add: anthropic_sendStreaming_def Let_def split_def)
  next
    case fin1: True
    from stream_checked_finished_events [OF fin1] obtain evs1 where
      evs1: "out (snd ?loop1) = out ?w6 @ evs1" "writes evs1 = map ?mk1 (tokenize content)"
            "list_all paced evs1"
      by blast
    show ?thesis
    proof (cases "fst ?loop2")
      case False
      from stream_checked_returned_not_completed [OF False] False fin1 show ?thesis
        by (simp add: anthropic_sendStreaming_def Let_def split_def)
    next
      case fin2: True
      from stream_checked_finished_events [OF fin2] obtain evs2 where
        evs2: "out (snd ?loop2) = out ?w10 @ evs2" "writes evs2 = map ?mk2 ?chunks"
              "list_all paced evs2"
        by blast
      have "out (anthropic_sendStreaming e cfg mid model content (Some tc) inTok outTok w) =
              out w @
              [WriteHead 200 ?hdrs,
               Write (SSE (js ''message_start'') (messageStart mid model inTok)),
               Sleep ?d,
               Write (SSE (js ''content_block_start'') (content_block_start 0 text_block))] @ evs1 @
              [Write (SSE (js ''content_block_stop'') (content_block_stop 0)),
               Write (SSE (js ''content_block_start'')
                        (content_block_start 1 (tool_use_block ?tid (tc_name tc))))] @ evs2 @
              [Write (SSE (js ''content_block_stop'') (content_block_stop 1)),
               Write (SSE (js ''message_delta'') (message_delta True outTok)),
               Write (SSE (js ''message_stop'') message_stop),
               End None]"
        using fin1 fin2 evs1(1) evs2(1)
        by (simp add: anthropic_sendStreaming_def anthropic_finish_def Let_def split_def)
      with evs1(2,3) evs2(2,3) show ?thesis by blast
    qed
  qed
qed

lemma anthropic_text_stream_shape:
  "\<not> completed (anthropic_sendStreaming e cfg mid model content None inTok outTok w) \<or>
   (\<exists>hdrs d evs1.
     out (anthropic_sendStreaming e cfg mid model content None inTok outTok w) =
       out w @
       [WriteHead 200 hdrs,
        Write (SSE (js ''message_start'') (messageStart mid model inTok)),
        Sleep d,
        Write (SSE (js ''content_block_start'') (content_block_start 0 text_block))] @ evs1 @
       [Write (SSE (js ''content_block_stop'') (content_block_stop 0)),
        Write (SSE (js ''message_delta'') (message_delta False outTok)),
        Write (SSE (js ''message_stop'') message_stop),
        End None] \<and>
     writes evs1 = map (\<lambda>token. SSE (js ''content_block_delta'')
                                 (content_block_delta 0 (text_delta token))) (tokenize content) \<and>
     list_all paced evs1)"
proof -
  let ?mk1 = "\<lambda>token. SSE (js ''content_block_delta'') (content_block_delta 0 (text_delta token))"
  let ?hdrs = "sse_headers @ [(js ''X-Request-Id'', fst (generateId e (js ''req'') w))]"
  let ?w3 = "writeSSE (js ''message_start'') (messageStart mid model inTok)
               (emit (WriteHead 200 ?hdrs) (snd (generateId e (js ''req'') w)))"
  let ?d = "fst (getFirstTokenDelay e cfg ?w3)"
  let ?w6 = "writeSSE (js ''content_block_start'') (content_block_start 0 text_block)
               (sleep ?d (snd (getFirstTokenDelay e cfg ?w3)))"
  let ?loop1 = "stream_checked e cfg ?mk1 (tokenize content) ?w6"
  show ?thesis
  proof (cases "fst ?loop1")
    case False
    from stream_checked_returned_not_completed [OF False] False show ?thesis
      by (simp add: anthropic_sendStreaming_def Let_def split_def)
  next
    case fin1: True
    from stream_checked_finished_events [OF fin1] obtain evs1 where
      evs1: "out (snd ?loop1) = out ?w6 @ evs1" "writes evs1 = map ?mk1 (tokenize content)"
            "list_all paced evs1"
      by blast
    have "out (anthropic_sendStreaming e cfg mid model content None inTok outTok w) =
            out w @
            [WriteHead 200 ?hdrs,
             Write (SSE (js ''message_start'') (messageStart mid model inTok)),
             Sleep ?d,
             Write (SSE (js ''content_block_start'') (content_block_start 0 text_block))] @ evs1 @
            [Write (SSE (js ''content_block_stop'') (content_block_stop 0)),
             Write (SSE (js ''message_delta'') (message_delta False outTok)),
             Write (SSE (js ''message_stop'') message_stop),
             End None]"
      using fin1 evs1(1)
      by (simp add: anthropic_sendStreaming_def anthropic_finish_def Let_def split_def)
    with evs1(2,3) show ?thesis by blast
  qed
qed

lemma anthropic_stream_open:
  "closed_at e = None \<Longrightarrow>
   completed (anthropic_sendStreaming e cfg mid model content tc inTok outTok w)"
  by (cases tc)
     (simp_all add: anthropic_sendStreaming_def anthropic_finish_def Let_def split_def
        stream_checked_open)

subsection \<open>The shape of a Gemini stream\<close>

lemma map_enumerate_not_last:
  "k + length ts \<le> n \<Longrightarrow>
   map (\<lambda>(i, t). f (i = n) t) (enumerate k ts) = map (f False) ts"
  by (induction ts arbitrary: k) simp_all

lemma gemini_tool_stream_shape:
  "\<exists>d. out (gemini_sendStreaming e cfg model content (Some tc) pt ct w) =
         out w @ [WriteHead 200 sse_headers, Sleep d,
                  Write (Data (gemini_tool_document model tc pt ct)), End None]"
  by (simp add: gemini_sendStreaming_def Let_def split_def)

lemma gemini_text_stream_shape:
  assumes toks: "tokenize content = ts @ [t]"
  shows "\<not> completed (gemini_sendStreaming e cfg model content None pt ct w) \<or>
   (\<exists>d evs.
     out (gemini_sendStreaming e cfg model content None pt ct w) =
       out w @ [WriteHead 200 sse_headers, Sleep d] @ evs @
       [Write (Data (gemini_chunk model pt ct True t)), End None] \<and>
     writes evs = map (\<lambda>token. Data (gemini_chunk model pt ct False token)) ts \<and>
     list_all paced evs)"
proof -
  let ?n = "length (ts @ [t])"
  let ?mk = "\<lambda>(i, token). Data (gemini_chunk model pt ct (i = ?n - 1) token)"
  let ?w1 = "emit (WriteHead 200 sse_headers) w"
  let ?d = "fst (getFirstTokenDelay e cfg ?w1)"
  let ?w3 = "sleep ?d (snd (getFirstTokenDelay e cfg ?w1))"
  let ?loop = "stream_checked e cfg ?mk (enumerate 0 ts @ [(length ts, t)]) ?w3"
  have en: "enumerate 0 (ts @ [t]) = enumerate 0 ts @ [(length ts, t)]"
    by (simp add: enumerate_append_eq)
  show ?thesis
  proof (cases "fst ?loop")
    case False
    from stream_checked_returned_not_completed [OF False] False toks en show ?thesis
      by (simp add: gemini_sendStreaming_def Let_def split_def)
  next
    case True
    from stream_checked_finished_last [OF True] obtain evs where
      evs: "out (snd ?loop) = out ?w3 @ evs @ [Write (?mk (length ts, t))]"
           "writes evs = map ?mk (enumerate 0 ts)" "list_all paced evs"
      by blast
    have "map ?mk (enumerate 0 ts) = map (\<lambda>token. Data (gemini_chunk model pt ct False token)) ts"
      using map_enumerate_not_last [of 0 ts "length ts" "\<lambda>b token. Data (gemini_chunk model pt ct b token)"]
      by simp
    with evs(2) have w: "writes evs = map (\<lambda>token. Data (gemini_chunk model pt ct False token)) ts"
      by simp
    have "out (gemini_sendStreaming e cfg model content None pt ct w) =
            out w @ [WriteHead 200 sse_headers, Sleep ?d] @ evs @
            [Write (Data (gemini_chunk model pt ct True t)), End None]"
      using True evs(1) toks en by (simp add: gemini_sendStreaming_def Let_def split_def)
    with w evs(3) show ?thesis by blast
  qed
qed

lemma gemini_stream_open:
  "closed_at e = None \<Longrightarrow> completed (gemini_sendStreaming e cfg model content tc pt ct w)"
  by (cases tc) (simp_all add: gemini_sendStreaming_def Let_def split_def stream_checked_open)

subsection \<open>What the handlers pass on\<close>

lemma catalog_has_responses: "p \<in> snd ` set personas \<Longrightarrow> responses p \<noteq> []"
  by (auto simp: personas_def persona_balanced_def persona_verbose_def persona_terse_def
        persona_code_def persona_markdown_def persona_tool_calls_def persona_error_prone_def)

lemma tokenize_Nil_iff: "tokenize s = [] \<longleftrightarrow> s = []"
  by (cases s) simp_all

lemma handleChatCompletions_stream:
  assumes "handleChatCompletions e body cfg w = Inr w'" and "b_stream body = Some True"
  shows "\<exists>cid created model c tc pt ct w2.
           w' = openai_sendStreaming e cfg cid created model c tc pt ct w2 \<and>
           out w2 = out w \<and> slept w2 = slept w \<and> c \<noteq> []"
proof -
  from assms obtain c tc w1 where
    sel: "selectContent e (resolvePersona body cfg) body w = Inr ((Some c, tc), w1)"
    and w': "w' = openai_sendStreaming e cfg (fst (generateId e (js ''chatcmpl'') w1))
               (Date_now e div 1000) (string_or (b_model body) (js ''gpt-4'')) c tc
               (estimateTokens (JSON_stringify e (json_or (b_messages body) (JArr []))))
               (estimateTokens c) (snd (generateId e (js ''chatcmpl'') w1))"
    by (auto simp: handleChatCompletions_def Let_def split_def split: sum.splits option.splits)
  from selectContent_Inr [OF sel] obtain p where
    p: "resolvePersona body cfg = Persona p" "w1 = w\<lparr>drawn := Suc (drawn w)\<rparr>"
       "c \<in> set (responses p)"
    by auto
  from catalog_responses_nonempty [OF resolvePersona_catalog [OF p(1)] p(3)] have "c \<noteq> []" .
  with w' p(2) show ?thesis by (intro exI [of _ "snd (generateId e (js ''chatcmpl'') w1)"] exI) simp
qed

lemma handleMessages_stream:
  assumes "handleMessages e body cfg w = Inr w'" and "b_stream body = Some True"
  shows "\<exists>mid model c tc inTok outTok w2.
           w' = anthropic_sendStreaming e cfg mid model c tc inTok outTok w2 \<and>
           out w2 = out w \<and> slept w2 = slept w \<and> c \<noteq> []"
proof -
  from assms obtain c tc w1 where
    sel: "selectContent e (resolvePersona body cfg) body w = Inr ((Some c, tc), w1)"
    and w': "w' = anthropic_sendStreaming e cfg (fst (generateId e (js ''msg'') w1))
               (string_or (b_model body) (js ''claude-sonnet-4-20250514'')) c tc
               (estimateTokens (JSON_stringify e (json_or (b_messages body) (JArr []))))
               (estimateTokens c) (snd (generateId e (js ''msg'') w1))"
    by (auto simp: handleMessages_def Let_def split_def split: sum.splits option.splits)
  from selectContent_Inr [OF sel] obtain p where
    p: "resolvePersona body cfg = Persona p" "w1 = w\<lparr>drawn := Suc (drawn w)\<rparr>"
       "c \<in> set (responses p)"
    by auto
  from catalog_responses_nonempty [OF resolvePersona_catalog [OF p(1)] p(3)] have "c \<noteq> []" .
  with w' p(2) show ?thesis by (intro exI [of _ "snd (generateId e (js ''msg'') w1)"] exI) simp
qed

lemma handleGenerateContent_stream:
  assumes "handleGenerateContent e body cfg model True w = Inr w'"
  shows "\<exists>c tc pt ct w2.
           w' = gemini_sendStreaming e cfg model c tc pt ct w2 \<and>
           out w2 = out w \<and> slept w2 = slept w \<and> c \<noteq> []"
proof -
  from assms obtain c tc w1 where
    sel: "selectContent e (resolvePersona body cfg) body w = Inr ((Some c, tc), w1)"
    and w': "w' = gemini_sendStreaming e cfg model c tc
               (estimateTokens (JSON_stringify e (json_or (b_contents body) (JArr []))))
               (estimateTokens c) w1"
    by (auto simp: handleGenerateContent_def Let_def split_def split: sum.splits option.splits)
  from selectContent_Inr [OF sel] obtain p where
    p: "resolvePersona body cfg = Persona p" "w1 = w\<lparr>drawn := Suc (drawn w)\<rparr>"
       "c \<in> set (responses p)"
    by auto
  from catalog_responses_nonempty [OF resolvePersona_catalog [OF p(1)] p(3)] have "c \<noteq> []" .
  with w' p(2) show ?thesis by (intro exI [of _ w1] exI) simp
qed

subsection \<open>Terminal frames\<close>

lemma or_elim: "\<not> P \<or> Q \<Longrightarrow> P \<Longrightarrow> Q"
  by blast

lemma paced_no_End: "list_all paced evs \<Longrightarrow> \<forall>ev \<in> set evs. \<not> is_End ev"
  using paced_not_End by blast

lemma openai_reads:
  "openai_finish_reason (Data (roleChunk c t m)) = Some JNull"
  "openai_delta (Data (roleChunk c t m)) \<noteq> Some (JObj [])"
  "openai_finish_reason (Data (toolChunk c t m i nm)) = Some JNull"
  "openai_delta (Data (toolChunk c t m i nm)) \<noteq> Some (JObj [])"
  "openai_finish_reason (Data (argChunk c t m x)) = Some JNull"
  "openai_delta (Data (argChunk c t m x)) \<noteq> Some (JObj [])"
  "openai_finish_reason (Data (contentChunk c t m x)) = Some JNull"
  "openai_delta (Data (contentChunk c t m x)) \<noteq> Some (JObj [])"
  "openai_finish_reason (Data (doneChunk c t m)) = Some (JStr (js ''tool_calls''))"
  "openai_delta (Data (doneChunk c t m)) = Some (JObj [])"
  "openai_finish_reason (Data (finalChunk c t m pt ct)) = Some (JStr (js ''stop''))"
  "openai_delta (Data (finalChunk c t m pt ct)) = Some (JObj [])"
  "Data j \<noteq> DONE"
  by (simp_all add: openai_finish_reason_def openai_delta_def read_def openai_chunk_def
        roleChunk_def toolChunk_def argChunk_def contentChunk_def doneChunk_def finalChunk_def
        DONE_def)

lemma gemini_reads:
  "gemini_usageMetadata (Data (gemini_chunk m pt ct False x)) = None"
  "gemini_finishReason (Data (gemini_chunk m pt ct False x)) = None"
  "gemini_usageMetadata (Data (gemini_chunk m pt ct True x)) = Some (usageMetadata pt ct)"
  "gemini_finishReason (Data (gemini_chunk m pt ct True x)) = Some (JStr (js ''STOP''))"
  "gemini_usageMetadata (Data (gemini_tool_document m tc pt ct)) = Some (usageMetadata pt ct)"
  "gemini_finishReason (Data (gemini_tool_document m tc pt ct)) = Some (JStr (js ''TOOL_CALLS''))"
  by (simp_all add: gemini_usageMetadata_def gemini_finishReason_def read_def gemini_chunk_def
        gemini_tool_document_def)

lemma openai_termination:
  assumes "handleChatCompletions e body cfg (fresh n) = Inr w'" and "b_stream body = Some True"
    and "completed w'"
  shows "\<exists>evs t. out w' = evs @ [Write t, Write DONE, End None] \<and>
           openai_delta t = Some (JObj []) \<and>
           (openai_finish_reason t = Some (JStr (js ''stop'')) \<or>
            openai_finish_reason t = Some (JStr (js ''tool_calls''))) \<and>
           (\<forall>f \<in> set (writes evs).
              openai_delta f \<noteq> Some (JObj []) \<and> openai_finish_reason f = Some JNull \<and> f \<noteq> DONE) \<and>
           (\<forall>ev \<in> set evs. \<not> is_End ev)"
proof -
  from handleChatCompletions_stream [OF assms(1,2)] obtain cid created model c tc pt ct w2 where
    w': "w' = openai_sendStreaming e cfg cid created model c tc pt ct w2" and w2: "out w2 = []"
    by (auto simp: fresh_def)
  show ?thesis
  proof (cases tc)
    case None
    with openai_text_stream_shape [of e cfg cid created model c pt ct w2] assms(3) w' w2
    obtain hdrs d evs where
      o: "out w' = [WriteHead 200 hdrs, Write (Data (roleChunk cid created model)), Sleep d] @ evs @
                   [Write (Data (finalChunk cid created model pt ct)), Write DONE, End None]"
      and wr: "writes evs = map (\<lambda>token. Data (contentChunk cid created model token)) (tokenize c)"
      and pc: "list_all paced evs"
      by auto
    let ?evs = "[WriteHead 200 hdrs, Write (Data (roleChunk cid created model)), Sleep d] @ evs"
    have 1: "out w' = ?evs @ [Write (Data (finalChunk cid created model pt ct)), Write DONE, End None]"
      using o by simp
    have 2: "\<forall>f \<in> set (writes ?evs).
               openai_delta f \<noteq> Some (JObj []) \<and> openai_finish_reason f = Some JNull \<and> f \<noteq> DONE"
      using wr by (auto simp: openai_reads)
    have 3: "\<forall>ev \<in> set ?evs. \<not> is_End ev"
      using paced_no_End [OF pc] by auto
    from 1 2 3 show ?thesis
      by (intro exI [of _ ?evs] exI [of _ "Data (finalChunk cid created model pt ct)"])
         (simp add: openai_reads)
  next
    case (Some t)
    with openai_tool_stream_shape [of e cfg cid created model c t pt ct w2] w' w2
    obtain hdrs d callId evs where
      o: "out w' = [WriteHead 200 hdrs, Write (Data (roleChunk cid created model)), Sleep d,
                    Write (Data (toolChunk cid created model callId (tc_name t)))] @ evs @
                   [Write (Data (doneChunk cid created model)), Write DONE, End None]"
      and wr: "writes evs = map (\<lambda>chunk. Data (argChunk cid created model chunk))
                              (chunkString (JSON_stringify e (tc_arguments t)) 8)"
      and pc: "list_all paced evs"
      by auto
    let ?evs = "[WriteHead 200 hdrs, Write (Data (roleChunk cid created model)), Sleep d,
                 Write (Data (toolChunk cid created model callId (tc_name t)))] @ evs"
    have 1: "out w' = ?evs @ [Write (Data (doneChunk cid created model)), Write DONE, End None]"
      using o by simp
    have 2: "\<forall>f \<in> set (writes ?evs).
               openai_delta f \<noteq> Some (JObj []) \<and> openai_finish_reason f = Some JNull \<and> f \<noteq> DONE"
      using wr by (auto simp: openai_reads)
    have 3: "\<forall>ev \<in> set ?evs. \<not> is_End ev"
      using paced_no_End [OF pc] by auto
    from 1 2 3 show ?thesis
      by (intro exI [of _ ?evs] exI [of _ "Data (doneChunk cid created model)"])
         (simp add: openai_reads)
  qed
qed

lemma anthropic_termination:
  assumes "handleMessages e body cfg (fresh n) = Inr w'" and "b_stream body = Some True"
    and "completed w'"
  shows "\<exists>evs md. out w' = evs @ [Write (SSE (js ''message_delta'') md),
                                  Write (SSE (js ''message_stop'') message_stop), End None] \<and>
           (\<forall>f \<in> set (writes evs).
              sse_event f \<noteq> Some (js ''message_delta'') \<and> sse_event f \<noteq> Some (js ''message_stop'')) \<and>
           (\<forall>ev \<in> set evs. \<not> is_End ev)"
proof -
  from handleMessages_stream [OF assms(1,2)] obtain mid model c tc inTok outTok w2 where
    w': "w' = anthropic_sendStreaming e cfg mid model c tc inTok outTok w2" and w2: "out w2 = []"
    by (auto simp: fresh_def)
  let ?mk1 = "\<lambda>token. SSE (js ''content_block_delta'') (content_block_delta 0 (text_delta token))"
  let ?mk2 = "\<lambda>chunk. SSE (js ''content_block_delta'') (content_block_delta 1 (input_json_delta chunk))"
  show ?thesis
  proof (cases tc)
    case None
    from assms(3) have "completed (anthropic_sendStreaming e cfg mid model c None inTok outTok w2)"
      by (simp add: w' None)
    with anthropic_text_stream_shape [of e cfg mid model c inTok outTok w2]
    have "\<exists>hdrs d evs1.
       out (anthropic_sendStreaming e cfg mid model c None inTok outTok w2) =
         out w2 @
         [WriteHead 200 hdrs,
          Write (SSE (js ''message_start'') (messageStart mid model inTok)),
          Sleep d,
          Write (SSE (js ''content_block_start'') (content_block_start 0 text_block))] @ evs1 @
         [Write (SSE (js ''content_block_stop'') (content_block_stop 0)),
          Write (SSE (js ''message_delta'') (message_delta False outTok)),
          Write (SSE (js ''message_stop'') message_stop),
          End None] \<and>
       writes evs1 = map ?mk1 (tokenize c) \<and> list_all paced evs1"
      by (rule or_elim)
    then obtain hdrs d evs1 where
      o: "out (anthropic_sendStreaming e cfg mid model c None inTok outTok w2) =
           out w2 @
           [WriteHead 200 hdrs,
            Write (SSE (js ''message_start'') (messageStart mid model inTok)),
            Sleep d,
            Write (SSE (js ''content_block_start'') (content_block_start 0 text_block))] @ evs1 @
           [Write (SSE (js ''content_block_stop'') (content_block_stop 0)),
            Write (SSE (js ''message_delta'') (message_delta False outTok)),
            Write (SSE (js ''message_stop'') message_stop),
            End None]"
      and wr: "writes evs1 = map ?mk1 (tokenize c)"
      and pc: "list_all paced evs1"
      by (elim exE conjE)
    let ?evs = "[WriteHead 200 hdrs,
            Write (SSE (js ''message_start'') (messageStart mid model inTok)),
            Sleep d,
            Write (SSE (js ''content_block_start'') (content_block_start 0 text_block))] @ evs1 @
           [Write (SSE (js ''content_block_stop'') (content_block_stop 0))]"
    have 1: "out w' = ?evs @ [Write (SSE (js ''message_delta'') (message_delta False outTok)),
                              Write (SSE (js ''message_stop'') message_stop), End None]"
      using o w2 by (simp add: w' None)
    have 2: "\<forall>f \<in> set (writes ?evs).
               sse_event f \<noteq> Some (js ''message_delta'') \<and> sse_event f \<noteq> Some (js ''message_stop'')"
      using wr by auto
    have 3: "\<forall>ev \<in> set ?evs. \<not> is_End ev"
      using paced_no_End [OF pc] by (simp add: ball_Un)
    show ?thesis
    proof (intro exI conjI)
      show "out w' = ?evs @ [Write (SSE (js ''message_delta'') (message_delta False outTok)),
                              Write (SSE (js ''message_stop'') message_stop), End None]"
        by (rule 1)
      show "\<forall>f \<in> set (writes ?evs).
               sse_event f \<noteq> Some (js ''message_delta'') \<and> sse_event f \<noteq> Some (js ''message_stop'')"
        by (rule 2)
      show "\<forall>ev \<in> set ?evs. \<not> is_End ev" by (rule 3)
    qed
  next
    case (Some t)
    from assms(3) have "completed (anthropic_sendStreaming e cfg mid model c (Some t) inTok outTok w2)"
      by (simp add: w' Some)
    with anthropic_tool_stream_shape [of e cfg mid model c t inTok outTok w2]
    have "\<exists>hdrs d tid evs1 evs2.
       out (anthropic_sendStreaming e cfg mid model c (Some t) inTok outTok w2) =
         out w2 @
         [WriteHead 200 hdrs,
          Write (SSE (js ''message_start'') (messageStart mid model inTok)),
          Sleep d,
          Write (SSE (js ''content_block_start'') (content_block_start 0 text_block))] @ evs1 @
         [Write (SSE (js ''content_block_stop'') (content_block_stop 0)),
          Write (SSE (js ''content_block_start'')
                   (content_block_start 1 (tool_use_block tid (tc_name t))))] @ evs2 @
         [Write (SSE (js ''content_block_stop'') (content_block_stop 1)),
          Write (SSE (js ''message_delta'') (message_delta True outTok)),
          Write (SSE (js ''message_stop'') message_stop),
          End None] \<and>
       writes evs1 = map ?mk1 (tokenize c) \<and> list_all paced evs1 \<and>
       writes evs2 = map ?mk2 (chunkString (JSON_stringify e (tc_arguments t)) 12) \<and>
       list_all paced evs2"
      by (rule or_elim)
    then obtain hdrs d tid evs1 evs2 where
      o: "out (anthropic_sendStreaming e cfg mid model c (Some t) inTok outTok w2) =
           out w2 @
           [WriteHead 200 hdrs,
            Write (SSE (js ''message_start'') (messageStart mid model inTok)),
            Sleep d,
            Write (SSE (js ''content_block_start'') (content_block_start 0 text_block))] @ evs1 @
           [Write (SSE (js ''content_block_stop'') (content_block_stop 0)),
            Write (SSE (js ''content_block_start'')
                     (content_block_start 1 (tool_use_block tid (tc_name t))))] @ evs2 @
           [Write (SSE (js ''content_block_stop'') (content_block_stop 1)),
            Write (SSE (js ''message_delta'') (message_delta True outTok)),
            Write (SSE (js ''message_stop'') message_stop),
            End None]"
      and wr1: "writes evs1 = map ?mk1 (tokenize c)"
      and pc1: "list_all paced evs1"
      and wr2: "writes evs2 = map ?mk2 (chunkString (JSON_stringify e (tc_arguments t)) 12)"
      and pc2: "list_all paced evs2"
      by (elim exE conjE)
    let ?evs = "[WriteHead 200 hdrs,
            Write (SSE (js ''message_start'') (messageStart mid model inTok)),
            Sleep d,
            Write (SSE (js ''content_block_start'') (content_block_start 0 text_block))] @ evs1 @
           [Write (SSE (js ''content_block_stop'') (content_block_stop 0)),
            Write (SSE (js ''content_block_start'')
                     (content_block_start 1 (tool_use_block tid (tc_name t))))] @ evs2 @
           [Write (SSE (js ''content_block_stop'') (content_block_stop 1))]"
    have 1: "out w' = ?evs @ [Write (SSE (js ''message_delta'') (message_delta True outTok)),
                              Write (SSE (js ''message_stop'') message_stop), End None]"
      using o w2 by (simp add: w' Some)
    have 2: "\<forall>f \<in> set (writes ?evs).
               sse_event f \<noteq> Some (js ''message_delta'') \<and> sse_event f \<noteq> Some (js ''message_stop'')"
      using wr1 wr2 by auto
    have 3: "\<forall>ev \<in> set ?evs. \<not> is_End ev"
      using paced_no_End [OF pc1] paced_no_End [OF pc2] by (simp add: ball_Un)
    show ?thesis
    proof (intro exI conjI)
      show "out w' = ?evs @ [Write (SSE (js ''message_delta'') (message_delta True outTok)),
                              Write (SSE (js ''message_stop'') message_stop), End None]"
        by (rule 1)
      show "\<forall>f \<in> set (writes ?evs).
               sse_event f \<noteq> Some (js ''message_delta'') \<and> sse_event f \<noteq> Some (js ''message_stop'')"
        by (rule 2)
      show "\<forall>ev \<in> set ?evs. \<not> is_End ev" by (rule 3)
    qed
  qed
qed

lemma gemini_termination:
  assumes "handleGenerateContent e body cfg model True (fresh n) = Inr w'" and "completed w'"
  shows "\<exists>evs t. out w' = evs @ [Write t, End None] \<and>
           gemini_usageMetadata t \<noteq> None \<and> gemini_finishReason t \<noteq> None \<and>
           (\<forall>f \<in> set (writes evs). gemini_usageMetadata f = None \<and> gemini_finishReason f = None) \<and>
           (\<forall>ev \<in> set evs. \<not> is_End ev)"
proof -
  from handleGenerateContent_stream [OF assms(1)] obtain c tc pt ct w2 where
    w': "w' = gemini_sendStreaming e cfg model c tc pt ct w2" and w2: "out w2 = []"
    and c: "c \<noteq> []"
    by (auto simp: fresh_def)
  show ?thesis
  proof (cases tc)
    case (Some t)
    with gemini_tool_stream_shape [of e cfg model c t pt ct w2] w' w2 obtain d where
      o: "out w' = [WriteHead 200 sse_headers, Sleep d] @
                   [Write (Data (gemini_tool_document model t pt ct)), End None]"
      by auto
    then show ?thesis
      by (intro exI [of _ "[WriteHead 200 sse_headers, Sleep d]"]
            exI [of _ "Data (gemini_tool_document model t pt ct)"])
         (simp add: gemini_reads)
  next
    case None
    from c have "tokenize c \<noteq> []" by (simp add: tokenize_Nil_iff)
    then obtain ts t where toks: "tokenize c = ts @ [t]"
      by (metis rev_exhaust)
    with gemini_text_stream_shape [OF toks, of e cfg model pt ct w2] assms(2) w' w2 None
    obtain d evs where
      o: "out w' = [WriteHead 200 sse_headers, Sleep d] @ evs @
                   [Write (Data (gemini_chunk model pt ct True t)), End None]"
      and wr: "writes evs = map (\<lambda>token. Data (gemini_chunk model pt ct False token)) ts"
      and pc: "list_all paced evs"
      by auto
    let ?evs = "[WriteHead 200 sse_headers, Sleep d] @ evs"
    have 1: "out w' = ?evs @ [Write (Data (gemini_chunk model pt ct True t)), End None]"
      using o by simp
    have 2: "\<forall>f \<in> set (writes ?evs). gemini_usageMetadata f = None \<and> gemini_finishReason f = None"
      using wr by (auto simp: gemini_reads)
    have 3: "\<forall>ev \<in> set ?evs. \<not> is_End ev"
      using paced_no_End [OF pc] by auto
    from 1 2 3 show ?thesis
      by (intro exI [of _ ?evs] exI [of _ "Data (gemini_chunk model pt ct True t)"])
         (simp add: gemini_reads)
  qed
qed

subsection \<open>The handlers return\<close>

lemma at_index_0: "xs \<noteq> [] \<Longrightarrow> at_index xs 0 = Some (hd xs)"
  by (cases xs) (simp_all add: at_index_def)

lemma selectContent_returns:
  assumes "p \<in> snd ` set personas"
    and "0 \<le> random_values e (drawn w)" and "random_values e (drawn w) < 1"
  shows "\<exists>c tc w1. selectContent e (Persona p) body w = Inr ((Some c, tc), w1)"
proof -
  from catalog_has_responses [OF assms(1)] have ne: "responses p \<noteq> []" .
  from at_index_in_range [OF assms(2,3) ne] obtain x where
    x: "at_index (responses p) \<lfloor>random_values e (drawn w) * real (length (responses p))\<rfloor> = Some x"
    by blast
  show ?thesis
  proof (cases "(name p = js ''tool_calls'' \<or> (case b_tools body of Some n \<Rightarrow> 0 < n | None \<Rightarrow> False)) \<and>
                toolCalls p \<noteq> None")
    case False
    with x show ?thesis
      by (auto simp: selectContent_def Let_def split_def)
  next
    case True
    then obtain tcs where tcs: "toolCalls p = Some tcs" by auto
    with True at_index_0 [OF ne] show ?thesis
      by (auto simp: selectContent_def getToolCall_def Let_def split_def split: option.splits)
  qed
qed

lemma handleChatCompletions_returns:
  assumes "resolvePersona body cfg = Persona p"
    and "0 \<le> random_values e (drawn w)" and "random_values e (drawn w) < 1"
  shows "\<exists>w'. handleChatCompletions e body cfg w = Inr w'"
proof -
  from selectContent_returns [OF resolvePersona_catalog [OF assms(1)] assms(2,3), of body]
  obtain c tc w1 where "selectContent e (Persona p) body w = Inr ((Some c, tc), w1)" by blast
  with assms(1) show ?thesis
    by (simp add: handleChatCompletions_def Let_def split_def)
qed

lemma handleMessages_returns:
  assumes "resolvePersona body cfg = Persona p"
    and "0 \<le> random_values e (drawn w)" and "random_values e (drawn w) < 1"
  shows "\<exists>w'. handleMessages e body cfg w = Inr w'"
proof -
  from selectContent_returns [OF resolvePersona_catalog [OF assms(1)] assms(2,3), of body]
  obtain c tc w1 where "selectContent e (Persona p) body w = Inr ((Some c, tc), w1)" by blast
  with assms(1) show ?thesis
    by (simp add: handleMessages_def Let_def split_def)
qed

lemma handleGenerateContent_returns:
  assumes "resolvePersona body cfg = Persona p"
    and "0 \<le> random_values e (drawn w)" and "random_values e (drawn w) < 1"
  shows "\<exists>w'. handleGenerateContent e body cfg model stream w = Inr w'"
proof -
  from selectContent_returns [OF resolvePersona_catalog [OF assms(1)] assms(2,3), of body]
  obtain c tc w1 where "selectContent e (Persona p) body w = Inr ((Some c, tc), w1)" by blast
  with assms(1) show ?thesis
    by (simp add: handleGenerateContent_def Let_def split_def)
qed

lemma resolvePersona_default [simp]: "resolvePersona empty_body DEFAULTS = Persona persona_balanced"
  by (simp add: resolvePersona_def string_or_def empty_body_def DEFAULTS_def getPersona_def
        get_property_def personas_def)

subsection \<open>Single-shot responses\<close>





lemma selectContent_error: "selectContent e pv body w = Inl err \<Longrightarrow> err = TypeError"
  by (cases err) simp




subsection \<open>The tool-call persona on the Anthropic stream\<close>




subsection \<open>Lookups with a name that \<open>Object.prototype\<close> does not define\<close>

lemma getPersona_catalog: "map_of personas nm = Some p \<Longrightarrow> getPersona nm = Persona p"
  by (simp add: getPersona_def get_property_def)

lemma getPersona_fallback:
  "map_of personas nm = None \<Longrightarrow> nm \<notin> set object_prototype_names \<Longrightarrow>
   getPersona nm = Persona persona_balanced"
  by (simp add: getPersona_def get_property_def)

lemma getChaosResponse_plain:
  assumes "kind \<notin> set object_prototype_names" and "provider \<notin> set object_prototype_names"
  shows "getChaosResponse e kind provider =
           Inr (Payload
             (case map_of errors kind of
                Some table \<Rightarrow>
                  (case map_of table provider of
                     Some p \<Rightarrow> p
                   | None \<Rightarrow>
                       (case map_of server_error_errors provider of
                          Some p \<Rightarrow> p | None \<Rightarrow> server_error_openai))
              | None \<Rightarrow>
                  (case map_of server_error_errors provider of
                     Some p \<Rightarrow> p | None \<Rightarrow> server_error_openai)))"
  using assms by (simp add: getChaosResponse_def get_property_def split: option.splits)

subsection \<open>Streams and the connection\<close>

lemma stream_checked_closed:
  "closed_at e = Some k \<Longrightarrow> k \<le> slept w \<Longrightarrow>
   writes (out (snd (stream_checked e cfg mk xs w))) = writes (out w) \<and>
   (xs \<noteq> [] \<longrightarrow> \<not> fst (stream_checked e cfg mk xs w))"
  by (cases xs) (simp_all add: Let_def split_def destroyed_def)

lemma open_stream_completes:
  assumes "closed_at e = None"
  shows "handleChatCompletions e body cfg w = Inr w' \<Longrightarrow> b_stream body = Some True \<Longrightarrow>
           completed w'"
    and "handleMessages e body cfg w = Inr w' \<Longrightarrow> b_stream body = Some True \<Longrightarrow> completed w'"
    and "handleGenerateContent e body cfg model True w = Inr w' \<Longrightarrow> completed w'"
proof -
  show "completed w'"
    if "handleChatCompletions e body cfg w = Inr w'" "b_stream body = Some True"
    using handleChatCompletions_stream [OF that] openai_stream_open [OF assms] by auto
  show "completed w'"
    if "handleMessages e body cfg w = Inr w'" "b_stream body = Some True"
    using handleMessages_stream [OF that] anthropic_stream_open [OF assms] by auto
  show "completed w'"
    if "handleGenerateContent e body cfg model True w = Inr w'"
    using handleGenerateContent_stream [OF that] gemini_stream_open [OF assms] by auto
qed

subsection \<open>Latency arithmetic\<close>



section \<open>The claims\<close>

text \<open>
  C1. No handler looks for the \<open>__ERROR__:\<close> marker.  With \<open>_persona: "error_prone"\<close>
  and a draw of 0 the chosen text is \<open>__ERROR__:rate_limit\<close>; the OpenAI handler answers
  200 with that text as the message content when not streaming, and streams its three
  tokens as content deltas after a 200 header when streaming.
\<close>

theorem error_marker_sent_as_content:
  "(\<exists>cid w'.
      routeToProvider (sample_env 0 None) (js ''openai'')
        (request_with (Some (js ''error_prone'')) False) DEFAULTS meta (fresh 0) = Inr w' \<and>
      out w' =
        [WriteHead 200 json_headers,
         End (Some (JObj
           [(''id'', JStr cid),
            (''object'', JStr (js ''chat.completion'')),
            (''created'', JNum 0),
            (''model'', JStr (js ''gpt-4'')),
            (''choices'', JArr [JObj
               [(''index'', JNum 0),
                (''message'', JObj [(''role'', JStr (js ''assistant'')),
                                    (''content'', JStr (js ''__ERROR__:rate_limit''))]),
                (''finish_reason'', JStr (js ''stop''))]]),
            (''usage'', openai_usage 1 5)]))]) \<and>
   (\<exists>cid w' hdrs d evs.
      routeToProvider (sample_env 0 None) (js ''openai'')
        (request_with (Some (js ''error_prone'')) True) DEFAULTS meta (fresh 0) = Inr w' \<and>
      out w' =
        [WriteHead 200 hdrs, Write (Data (roleChunk cid 0 (js ''gpt-4''))), Sleep d] @ evs @
        [Write (Data (finalChunk cid 0 (js ''gpt-4'') 1 5)), Write DONE, End None] \<and>
      writes evs = map (\<lambda>token. Data (contentChunk cid 0 (js ''gpt-4'') token))
                     [js ''__ERROR__'', js '':'', js ''rate_limit''])"
proof -
  let ?e = "sample_env 0 None"
  let ?cid = "fst (generateId ?e (js ''chatcmpl'') ((fresh 0)\<lparr>drawn := Suc 0\<rparr>))"
  let ?w2 = "snd (generateId ?e (js ''chatcmpl'') ((fresh 0)\<lparr>drawn := Suc 0\<rparr>))"
  let ?W = "openai_sendStreaming ?e DEFAULTS ?cid 0 (js ''gpt-4'') (js ''__ERROR__:rate_limit'')
              None 1 5 ?w2"
  have toks: "tokenize (js ''__ERROR__:rate_limit'') = [js ''__ERROR__'', js '':'', js ''rate_limit'']"
    by (simp add: js_def is_space_def is_word_def)
  have 1: "\<exists>cid w'.
      routeToProvider ?e (js ''openai'')
        (request_with (Some (js ''error_prone'')) False) DEFAULTS meta (fresh 0) = Inr w' \<and>
      out w' =
        [WriteHead 200 json_headers,
         End (Some (JObj
           [(''id'', JStr cid),
            (''object'', JStr (js ''chat.completion'')),
            (''created'', JNum 0),
            (''model'', JStr (js ''gpt-4'')),
            (''choices'', JArr [JObj
               [(''index'', JNum 0),
                (''message'', JObj [(''role'', JStr (js ''assistant'')),
                                    (''content'', JStr (js ''__ERROR__:rate_limit''))]),
                (''finish_reason'', JStr (js ''stop''))]]),
            (''usage'', openai_usage 1 5)]))]"
    by (simp add: routeToProvider_def handleChatCompletions_def resolvePersona_def string_or_def
          request_with_def empty_body_def getPersona_def get_property_def personas_def
          selectContent_def persona_error_prone_def at_index_def sample_env_def fresh_def Let_def
          split_def openai_sendNonStreaming_def estimateTokens_div json_or_def)
  have h: "routeToProvider ?e (js ''openai'')
             (request_with (Some (js ''error_prone'')) True) DEFAULTS meta (fresh 0) = Inr ?W"
    by (simp add: routeToProvider_def handleChatCompletions_def resolvePersona_def string_or_def
          request_with_def empty_body_def getPersona_def get_property_def personas_def
          selectContent_def persona_error_prone_def at_index_def sample_env_def fresh_def Let_def
          split_def estimateTokens_div json_or_def)
  have c: "completed ?W"
    by (rule openai_stream_open) (simp add: sample_env_def)
  have w2: "out ?w2 = []" by (simp add: fresh_def)
  from or_elim [OF openai_text_stream_shape c] obtain hdrs d evs where
    o: "out ?W = out ?w2 @ [WriteHead 200 hdrs, Write (Data (roleChunk ?cid 0 (js ''gpt-4''))), Sleep d] @
          evs @ [Write (Data (finalChunk ?cid 0 (js ''gpt-4'') 1 5)), Write DONE, End None]"
    and wr: "writes evs = map (\<lambda>token. Data (contentChunk ?cid 0 (js ''gpt-4'') token))
                            (tokenize (js ''__ERROR__:rate_limit''))"
    by (elim exE conjE)
  have 2: "\<exists>cid w' hdrs d evs.
      routeToProvider ?e (js ''openai'')
        (request_with (Some (js ''error_prone'')) True) DEFAULTS meta (fresh 0) = Inr w' \<and>
      out w' =
        [WriteHead 200 hdrs, Write (Data (roleChunk cid 0 (js ''gpt-4''))), Sleep d] @ evs @
        [Write (Data (finalChunk cid 0 (js ''gpt-4'') 1 5)), Write DONE, End None] \<and>
      writes evs = map (\<lambda>token. Data (contentChunk cid 0 (js ''gpt-4'') token))
                     [js ''__ERROR__'', js '':'', js ''rate_limit'']"
  proof (intro exI conjI)
    show "routeToProvider ?e (js ''openai'')
        (request_with (Some (js ''error_prone'')) True) DEFAULTS meta (fresh 0) = Inr ?W"
      by (rule h)
    show "out ?W = [WriteHead 200 hdrs, Write (Data (roleChunk ?cid 0 (js ''gpt-4''))), Sleep d] @ evs @
            [Write (Data (finalChunk ?cid 0 (js ''gpt-4'') 1 5)), Write DONE, End None]"
      using o w2 by simp
    show "writes evs = map (\<lambda>token. Data (contentChunk ?cid 0 (js ''gpt-4'') token))
                     [js ''__ERROR__'', js '':'', js ''rate_limit'']"
      using wr toks by simp
  qed
  from 1 2 show ?thesis by (rule conjI)
qed

text \<open>
  C2. With fault injection enabled, \<open>shouldTriggerChaos\<close> makes exactly one draw \<open>r\<close> of
  \<open>Math.random()\<close> and returns \<open>rate_limit\<close> iff \<open>r < rateLimitRate\<close>, \<open>server_error\<close> iff
  \<open>rateLimitRate \<le> r < rateLimitRate + errorRate\<close>, \<open>slowdown\<close> iff \<open>r\<close> lies in the third
  band, and \<open>null\<close> iff \<open>r\<close> is past all three bands; disabled, it returns \<open>null\<close> and
  draws nothing.  The rates are probabilities: the error and slowdown rates are not
  negative.
\<close>

theorem shouldTriggerChaos_bands:
  assumes "0 \<le> errorRate (chaos cfg)" and "0 \<le> slowdownRate (chaos cfg)"
  shows "(enabled (chaos cfg) \<longrightarrow>
           (let r = random_values e (drawn w);
                rl = rateLimitRate (chaos cfg);
                er = errorRate (chaos cfg);
                sr = slowdownRate (chaos cfg);
                res = shouldTriggerChaos e cfg w
            in snd res = w\<lparr>drawn := Suc (drawn w)\<rparr> \<and>
               (fst res = Some (js ''rate_limit'') \<longleftrightarrow> r < rl) \<and>
               (fst res = Some (js ''server_error'') \<longleftrightarrow> rl \<le> r \<and> r < rl + er) \<and>
               (fst res = Some (js ''slowdown'') \<longleftrightarrow> rl + er \<le> r \<and> r < rl + er + sr) \<and>
               (fst res = None \<longleftrightarrow> rl + er + sr \<le> r))) \<and>
         (\<not> enabled (chaos cfg) \<longrightarrow> shouldTriggerChaos e cfg w = (None, w))"
  using assms by (auto simp: shouldTriggerChaos_def Let_def split_def)

theorem shouldTriggerChaos_bands_witness:
  "0 \<le> errorRate (chaos chaos_enabled) \<and> 0 \<le> slowdownRate (chaos chaos_enabled) \<and>
   enabled (chaos chaos_enabled) \<and>
   shouldTriggerChaos (sample_env (3 / 100) None) chaos_enabled (fresh 0) =
     (Some (js ''server_error''), fresh 1) \<and>
   \<not> enabled (chaos DEFAULTS) \<and>
   shouldTriggerChaos (sample_env (3 / 100) None) DEFAULTS (fresh 0) = (None, fresh 0)"
  using shouldTriggerChaos_bands [of chaos_enabled "sample_env (3 / 100) None" "fresh 0"]
        shouldTriggerChaos_bands [of DEFAULTS "sample_env (3 / 100) None" "fresh 0"]
  by (simp add: chaos_enabled_def DEFAULTS_def sample_env_def fresh_def Let_def prod_eq_iff)

text \<open>
  C3. \<open>getChaosResponse\<close> reads \<open>errors[type]\<close> and \<open>[provider]\<close> through the prototype
  chain: for the provider name \<open>constructor\<close> (or any other member of \<open>Object.prototype\<close>)
  it returns that built-in function, which is no payload, instead of the provider-less
  fallback.
\<close>

theorem inherited_provider_name_no_payload:
  "getChaosResponse e (js ''rate_limit'') (js ''constructor'') = Inr (HostValue [js ''constructor'']) \<and>
   getChaosResponse e (js ''no_such_kind'') (js ''toString'') = Inr (HostValue [js ''toString''])"
  by (simp add: getChaosResponse_def get_property_def errors_def rate_limit_errors_def
        server_error_errors_def object_prototype_names_def)

text \<open>
  C4. For every input string, concatenating the tokens that \<open>tokenize\<close> produces, in order,
  gives the input string back.
\<close>

theorem tokenize_roundtrip: "concat (tokenize s) = s"
  by (induction s rule: tokenize.induct) simp_all




text \<open>
  C6. \<open>getPersona\<close> reads \<open>personas[name]\<close> through the prototype chain: the name
  \<open>constructor\<close> is not in the catalog, yet the result is the built-in function and not the
  balanced persona, and every handler then throws a TypeError at \<open>p.responses.length\<close>.
\<close>

theorem inherited_persona_name_fails:
  "getPersona (js ''constructor'') = Builtin (js ''constructor'') \<and>
   map_of personas (js ''constructor'') = None \<and>
   resolvePersona (request_with (Some (js ''constructor'')) streaming) cfg =
     Builtin (js ''constructor'') \<and>
   handleChatCompletions e (request_with (Some (js ''constructor'')) streaming) cfg w =
     Inl TypeError \<and>
   handleMessages e (request_with (Some (js ''constructor'')) streaming) cfg w = Inl TypeError \<and>
   handleGenerateContent e (request_with (Some (js ''constructor'')) streaming) cfg model stream w =
     Inl TypeError"
proof -
  have g: "getPersona (js ''constructor'') = Builtin (js ''constructor'')"
    and m: "map_of personas (js ''constructor'') = None"
    by (simp_all add: getPersona_def get_property_def personas_def object_prototype_names_def)
  have r: "resolvePersona (request_with (Some (js ''constructor'')) streaming) cfg =
             Builtin (js ''constructor'')"
    by (simp add: g resolvePersona_def string_or_def request_with_def empty_body_def)
  from g m r show ?thesis
    by (simp add: handleChatCompletions_def handleMessages_def handleGenerateContent_def
          selectContent_def)
qed

text \<open>
  C7. The OpenAI tool-call path has no liveness test.  When the client closes the
  connection during the first-token delay (\<open>res.destroyed\<close> is true after every later
  sleep), \<open>sendStreaming\<close> still writes the tool header, every argument chunk, the final
  chunk and \<open>data: [DONE]\<close>.  The text path of the same function stops at its first test.
\<close>

theorem openai_tool_stream_ignores_disconnect:
  "destroyed (e\<lparr>closed_at := Some 0\<rparr>) (sleep d w) \<and>
   (\<exists>hdrs dl callId evs.
      out (openai_sendStreaming (e\<lparr>closed_at := Some 0\<rparr>) cfg cid created model content (Some tc)
             pt ct (fresh n)) =
        [WriteHead 200 hdrs, Write (Data (roleChunk cid created model)), Sleep dl,
         Write (Data (toolChunk cid created model callId (tc_name tc)))] @ evs @
        [Write (Data (doneChunk cid created model)), Write DONE, End None] \<and>
      writes evs = map (\<lambda>chunk. Data (argChunk cid created model chunk))
                     (chunkString (JSON_stringify e (tc_arguments tc)) 8)) \<and>
   (\<exists>hdrs dl dl'.
      out (openai_sendStreaming (e\<lparr>closed_at := Some 0\<rparr>) cfg cid created model (c # cs) None
             pt ct (fresh n)) =
        [WriteHead 200 hdrs, Write (Data (roleChunk cid created model)), Sleep dl, Sleep dl'])"
proof -
  let ?e = "e\<lparr>closed_at := Some 0\<rparr>"
  have 1: "destroyed ?e (sleep d w)"
    by (simp add: destroyed_def)
  have o0: "out (fresh n) = []" by (simp add: fresh_def)
  from openai_tool_stream_shape [of ?e cfg cid created model content tc pt ct "fresh n"]
  have 2: "\<exists>hdrs dl callId evs.
      out (openai_sendStreaming ?e cfg cid created model content (Some tc) pt ct (fresh n)) =
        [WriteHead 200 hdrs, Write (Data (roleChunk cid created model)), Sleep dl,
         Write (Data (toolChunk cid created model callId (tc_name tc)))] @ evs @
        [Write (Data (doneChunk cid created model)), Write DONE, End None] \<and>
      writes evs = map (\<lambda>chunk. Data (argChunk cid created model chunk))
                     (chunkString (JSON_stringify e (tc_arguments tc)) 8)"
    unfolding o0 by auto
  have "tokenize (c # cs) \<noteq> []" by (simp add: tokenize_Nil_iff)
  then obtain t ts where toks: "tokenize (c # cs) = t # ts"
    by (cases "tokenize (c # cs)") auto
  have 3: "\<exists>hdrs dl dl'.
      out (openai_sendStreaming ?e cfg cid created model (c # cs) None pt ct (fresh n)) =
        [WriteHead 200 hdrs, Write (Data (roleChunk cid created model)), Sleep dl, Sleep dl']"
    using toks by (simp add: openai_sendStreaming_def Let_def split_def destroyed_def fresh_def)
  from 1 2 3 show ?thesis by blast
qed

text \<open>
  C8. A stream that runs to completion ends with exactly one terminal sequence and
  nothing after it.  OpenAI: the last two frames are a chunk with the empty delta and a
  finish reason (\<open>stop\<close> or \<open>tool_calls\<close>) and the line \<open>data: [DONE]\<close>, then \<open>res.end()\<close>;
  no earlier frame has an empty delta or a finish reason.  Anthropic: the last two frames
  are \<open>message_delta\<close> and \<open>message_stop\<close>, and no earlier frame is one of them.  Gemini:
  the last frame carries \<open>usageMetadata\<close> and \<open>finishReason\<close>, and no earlier frame does.
\<close>

theorem stream_termination:
  "(handleChatCompletions e body cfg (fresh n) = Inr w1 \<and> b_stream body = Some True \<and>
    completed w1 \<longrightarrow>
      (\<exists>evs t. out w1 = evs @ [Write t, Write DONE, End None] \<and>
         openai_delta t = Some (JObj []) \<and>
         (openai_finish_reason t = Some (JStr (js ''stop'')) \<or>
          openai_finish_reason t = Some (JStr (js ''tool_calls''))) \<and>
         (\<forall>f \<in> set (writes evs).
            openai_delta f \<noteq> Some (JObj []) \<and> openai_finish_reason f = Some JNull \<and> f \<noteq> DONE) \<and>
         (\<forall>ev \<in> set evs. \<not> is_End ev))) \<and>
   (handleMessages e body cfg (fresh n) = Inr w2 \<and> b_stream body = Some True \<and>
    completed w2 \<longrightarrow>
      (\<exists>evs md. out w2 = evs @ [Write (SSE (js ''message_delta'') md),
                                Write (SSE (js ''message_stop'') message_stop), End None] \<and>
         (\<forall>f \<in> set (writes evs).
            sse_event f \<noteq> Some (js ''message_delta'') \<and> sse_event f \<noteq> Some (js ''message_stop'')) \<and>
         (\<forall>ev \<in> set evs. \<not> is_End ev))) \<and>
   (handleGenerateContent e body cfg model True (fresh n) = Inr w3 \<and> completed w3 \<longrightarrow>
      (\<exists>evs t. out w3 = evs @ [Write t, End None] \<and>
         gemini_usageMetadata t \<noteq> None \<and> gemini_finishReason t \<noteq> None \<and>
         (\<forall>f \<in> set (writes evs). gemini_usageMetadata f = None \<and> gemini_finishReason f = None) \<and>
         (\<forall>ev \<in> set evs. \<not> is_End ev)))"
proof (intro conjI impI)
  assume "handleChatCompletions e body cfg (fresh n) = Inr w1 \<and> b_stream body = Some True \<and>
          completed w1"
  then show "\<exists>evs t. out w1 = evs @ [Write t, Write DONE, End None] \<and>
         openai_delta t = Some (JObj []) \<and>
         (openai_finish_reason t = Some (JStr (js ''stop'')) \<or>
          openai_finish_reason t = Some (JStr (js ''tool_calls''))) \<and>
         (\<forall>f \<in> set (writes evs).
            openai_delta f \<noteq> Some (JObj []) \<and> openai_finish_reason f = Some JNull \<and> f \<noteq> DONE) \<and>
         (\<forall>ev \<in> set evs. \<not> is_End ev)"
    by (elim conjE) (rule openai_termination)
next
  assume "handleMessages e body cfg (fresh n) = Inr w2 \<and> b_stream body = Some True \<and>
          completed w2"
  then show "\<exists>evs md. out w2 = evs @ [Write (SSE (js ''message_delta'') md),
                                Write (SSE (js ''message_stop'') message_stop), End None] \<and>
         (\<forall>f \<in> set (writes evs).
            sse_event f \<noteq> Some (js ''message_delta'') \<and> sse_event f \<noteq> Some (js ''message_stop'')) \<and>
         (\<forall>ev \<in> set evs. \<not> is_End ev)"
    by (elim conjE) (rule anthropic_termination)
next
  assume "handleGenerateContent e body cfg model True (fresh n) = Inr w3 \<and> completed w3"
  then show "\<exists>evs t. out w3 = evs @ [Write t, End None] \<and>
         gemini_usageMetadata t \<noteq> None \<and> gemini_finishReason t \<noteq> None \<and>
         (\<forall>f \<in> set (writes evs). gemini_usageMetadata f = None \<and> gemini_finishReason f = None) \<and>
         (\<forall>ev \<in> set evs. \<not> is_End ev)"
    by (elim conjE) (rule gemini_termination)
qed

theorem stream_termination_witness:
  "\<exists>w1 w2 w3.
     handleChatCompletions (sample_env 0 None) (request_with None True) DEFAULTS (fresh 0) = Inr w1 \<and>
     b_stream (request_with None True) = Some True \<and> completed w1 \<and>
     (\<exists>evs t. out w1 = evs @ [Write t, Write DONE, End None] \<and>
        openai_delta t = Some (JObj []) \<and>
        (openai_finish_reason t = Some (JStr (js ''stop'')) \<or>
         openai_finish_reason t = Some (JStr (js ''tool_calls'')))) \<and>
     handleMessages (sample_env 0 None) (request_with None True) DEFAULTS (fresh 0) = Inr w2 \<and>
     completed w2 \<and>
     (\<exists>evs md. out w2 = evs @ [Write (SSE (js ''message_delta'') md),
                               Write (SSE (js ''message_stop'') message_stop), End None]) \<and>
     handleGenerateContent (sample_env 0 None) (request_with None True) DEFAULTS (js ''gemini-pro'')
       True (fresh 0) = Inr w3 \<and>
     completed w3 \<and>
     (\<exists>evs t. out w3 = evs @ [Write t, End None] \<and>
        gemini_usageMetadata t \<noteq> None \<and> gemini_finishReason t \<noteq> None)"
proof -
  let ?e = "sample_env 0 None" and ?b = "request_with None True"
  have s: "b_stream ?b = Some True"
    by (simp add: request_with_def empty_body_def)
  have p: "resolvePersona ?b DEFAULTS = Persona persona_balanced"
    by (simp add: resolvePersona_def string_or_def request_with_def empty_body_def DEFAULTS_def
          getPersona_def get_property_def personas_def)
  have r: "0 \<le> random_values ?e (drawn (fresh 0))" "random_values ?e (drawn (fresh 0)) < 1"
    and o: "closed_at ?e = None"
    by (simp_all add: sample_env_def)
  from handleChatCompletions_returns [OF p r] obtain w1 where
    w1: "handleChatCompletions ?e ?b DEFAULTS (fresh 0) = Inr w1" by blast
  from handleMessages_returns [OF p r] obtain w2 where
    w2: "handleMessages ?e ?b DEFAULTS (fresh 0) = Inr w2" by blast
  from handleGenerateContent_returns [OF p r] obtain w3 where
    w3: "handleGenerateContent ?e ?b DEFAULTS (js ''gemini-pro'') True (fresh 0) = Inr w3" by blast
  from handleChatCompletions_stream [OF w1 s] openai_stream_open [OF o] have c1: "completed w1"
    by auto
  from handleMessages_stream [OF w2 s] anthropic_stream_open [OF o] have c2: "completed w2"
    by auto
  from handleGenerateContent_stream [OF w3] gemini_stream_open [OF o] have c3: "completed w3"
    by auto
  from stream_termination [of ?e ?b DEFAULTS 0 w1 w2 "js ''gemini-pro''" w3] w1 w2 w3 s c1 c2 c3
  have "(\<exists>evs t. out w1 = evs @ [Write t, Write DONE, End None] \<and>
        openai_delta t = Some (JObj []) \<and>
        (openai_finish_reason t = Some (JStr (js ''stop'')) \<or>
         openai_finish_reason t = Some (JStr (js ''tool_calls''))))"
    and "(\<exists>evs md. out w2 = evs @ [Write (SSE (js ''message_delta'') md),
                               Write (SSE (js ''message_stop'') message_stop), End None])"
    and "(\<exists>evs t. out w3 = evs @ [Write t, End None] \<and>
        gemini_usageMetadata t \<noteq> None \<and> gemini_finishReason t \<noteq> None)"
    by blast+
  with w1 w2 w3 s c1 c2 c3 show ?thesis by blast
qed





end
